theory Spec2Isabelle
  imports Complex_Main "HOL-Library.Sublist" "HOL-Library.AList"
begin

section \<open>Python values used by the content-evolution engine\<close>

text \<open>
  The engine of \<^verbatim>\<open>self_evolution_agent.py\<close> is embedded function by function.
  Python floats are modelled as \<^typ>\<open>real\<close> (exact arithmetic, no rounding and no NaN),
  Python \<^verbatim>\<open>str\<close> as \<^typ>\<open>string\<close> with the ASCII rules for case, white space and
  word characters, a \<^verbatim>\<open>dict\<close> as an association list in insertion order
  (\<^const>\<open>AList.update\<close> overwrites in place, as a Python dict does), and an exception as
  the left injection of a sum type.
\<close>

datatype py_error =
    ValueError string
  | ZeroDivisionError string
  | AttributeError string
  | KeyError string
  | IndexError string

text \<open>
  \<^verbatim>\<open>str(e)\<close>: the message; for a \<^verbatim>\<open>KeyError\<close> the quoted key; an
  \<^verbatim>\<open>AttributeError\<close> carries the name of the attribute that a plain dict lacks.
\<close>

fun py_error_str :: "py_error \<Rightarrow> string" where
  "py_error_str (ValueError msg) = msg"
| "py_error_str (ZeroDivisionError msg) = msg"
| "py_error_str (AttributeError attr) =
     [CHR 39] @ ''dict'' @ [CHR 39] @ '' object has no attribute '' @ [CHR 39] @ attr @ [CHR 39]"
| "py_error_str (KeyError k) = [CHR 39] @ k @ [CHR 39]"
| "py_error_str (IndexError msg) = msg"

definition is_upper :: "char \<Rightarrow> bool" where
  "is_upper c = (65 \<le> (of_char c :: nat) \<and> (of_char c :: nat) \<le> 90)"

definition lower_char :: "char \<Rightarrow> char" where
  "lower_char c = (if is_upper c then char_of ((of_char c :: nat) + 32) else c)"

text \<open>\<^verbatim>\<open>s.lower()\<close>\<close>

definition py_lower :: "string \<Rightarrow> string" where
  "py_lower s = map lower_char s"

definition is_space :: "char \<Rightarrow> bool" where
  "is_space c = ((of_char c :: nat) \<in> {9, 10, 11, 12, 13, 28, 29, 30, 31, 32})"

definition is_word_char :: "char \<Rightarrow> bool" where
  "is_word_char c =
     (let n = (of_char c :: nat)
      in (48 \<le> n \<and> n \<le> 57) \<or> (65 \<le> n \<and> n \<le> 90) \<or> n = 95 \<or> (97 \<le> n \<and> n \<le> 122))"

text \<open>\<^verbatim>\<open>s.strip()\<close>\<close>

definition py_strip :: "string \<Rightarrow> string" where
  "py_strip s = rev (dropWhile is_space (rev (dropWhile is_space s)))"

text \<open>\<^verbatim>\<open>sub in s\<close> on strings: \<open>sub\<close> occurs as a contiguous block of \<open>s\<close>.\<close>

primrec py_in :: "string \<Rightarrow> string \<Rightarrow> bool" where
  "py_in sub [] = (sub = [])"
| "py_in sub (c # cs) = (prefix sub (c # cs) \<or> py_in sub cs)"

text \<open>\<^verbatim>\<open>any(term in s for term in terms)\<close>\<close>

definition any_in :: "string list \<Rightarrow> string \<Rightarrow> bool" where
  "any_in terms s = list_ex (\<lambda>t. py_in t s) terms"

text \<open>
  \<^verbatim>\<open>s.split(sep)\<close> for a non-empty separator: the leftmost occurrences of \<open>sep\<close>, not
  overlapping, cut \<open>s\<close>. The source only splits on literals; for the empty separator
  (a \<^verbatim>\<open>ValueError\<close> in Python) the model returns \<open>[s]\<close>, and no definition below
  reaches that case.
\<close>

function py_split :: "string \<Rightarrow> string \<Rightarrow> string list" where
  "py_split sep s =
     (if s = [] then [[]]
      else if sep \<noteq> [] \<and> prefix sep s then [] # py_split sep (drop (length sep) s)
      else (case py_split sep (tl s) of
              [] \<Rightarrow> [[hd s]]
            | p # ps \<Rightarrow> (hd s # p) # ps))"
  by pat_completeness auto
termination
  by (relation "measure (\<lambda>(sep, s). length s)") (auto simp: Suc_le_eq)

declare py_split.simps [simp del]

text \<open>\<^verbatim>\<open>sep.join(parts)\<close>\<close>

fun py_join :: "string \<Rightarrow> string list \<Rightarrow> string" where
  "py_join sep [] = []"
| "py_join sep [p] = p"
| "py_join sep (p # q # ps) = p @ sep @ py_join sep (q # ps)"

text \<open>\<^verbatim>\<open>s.split()\<close>: the maximal runs of characters that are not white space.\<close>

fun split_ws :: "string \<Rightarrow> string \<Rightarrow> string list" where
  "split_ws acc [] = (if acc = [] then [] else [rev acc])"
| "split_ws acc (c # cs) =
     (if is_space c then (if acc = [] then split_ws [] cs else rev acc # split_ws [] cs)
      else split_ws (c # acc) cs)"

definition py_split_ws :: "string \<Rightarrow> string list" where
  "py_split_ws s = split_ws [] s"

text \<open>\<^verbatim>\<open>re.findall(r'\w+', s)\<close>: the maximal runs of word characters.\<close>

fun findall_acc :: "string \<Rightarrow> string \<Rightarrow> string list" where
  "findall_acc acc [] = (if acc = [] then [] else [rev acc])"
| "findall_acc acc (c # cs) =
     (if is_word_char c then findall_acc (c # acc) cs
      else (if acc = [] then findall_acc [] cs else rev acc # findall_acc [] cs))"

definition findall_words :: "string \<Rightarrow> string list" where
  "findall_words s = findall_acc [] s"

text \<open>
  \<^verbatim>\<open>max(xs)\<close> and \<^verbatim>\<open>max(xs, key=k)\<close>: the first maximal element, \<^verbatim>\<open>ValueError\<close> on
  an empty sequence; \<^verbatim>\<open>min(xs)\<close> likewise.
\<close>

definition py_max_by :: "('a \<Rightarrow> 'k::linorder) \<Rightarrow> 'a list \<Rightarrow> py_error + 'a" where
  "py_max_by key xs =
     (case xs of
        [] \<Rightarrow> Inl (ValueError ''max() arg is an empty sequence'')
      | x # rest \<Rightarrow> Inr (fold (\<lambda>y best. if key best < key y then y else best) rest x))"

definition py_max :: "('a::linorder) list \<Rightarrow> py_error + 'a" where
  "py_max xs = py_max_by (\<lambda>x. x) xs"

definition py_min :: "('a::linorder) list \<Rightarrow> py_error + 'a" where
  "py_min xs =
     (case xs of
        [] \<Rightarrow> Inl (ValueError ''min() arg is an empty sequence'')
      | x # rest \<Rightarrow> Inr (fold (\<lambda>y best. if y < best then y else best) rest x))"

text \<open>\<^verbatim>\<open>int(x)\<close> on a float: truncation towards zero.\<close>

definition py_int :: "real \<Rightarrow> int" where
  "py_int x = (if 0 \<le> x then \<lfloor>x\<rfloor> else \<lceil>x\<rceil>)"

text \<open>\<^verbatim>\<open>xs[-w:]\<close> for an integer \<open>w\<close>.\<close>

definition slice_last :: "'a list \<Rightarrow> int \<Rightarrow> 'a list" where
  "slice_last xs w =
     (if 0 < w then drop (length xs - nat w) xs
      else drop (nat (- w)) xs)"

text \<open>
  What the embedding takes from the Python runtime without modelling it: the MD5
  digest of a string as hexadecimal text, and the formats \<^verbatim>\<open>{x:.1f}\<close> and \<^verbatim>\<open>{x:.2f}\<close>, and
  \<^verbatim>\<open>str\<close> of an integer and of a float.
\<close>

record py_runtime =
  md5_hexdigest :: "string \<Rightarrow> string"
  format_1f :: "real \<Rightarrow> string"
  format_2f :: "real \<Rightarrow> string"
  str_int :: "int \<Rightarrow> string"
  str_float :: "real \<Rightarrow> string"

text \<open>
  A clock is the sequence of values that \<^verbatim>\<open>datetime.now().isoformat()\<close> returns to the
  successive readings made by one call.
\<close>

type_synonym clock = "nat \<Rightarrow> string"

section \<open>Data model\<close>

datatype VariantType =
    PERSPECTIVE_SHIFT
  | STRUCTURE_REORGANIZATION
  | DEPTH_ENHANCEMENT
  | BREADTH_EXPANSION
  | CRITICAL_ANALYSIS
  | SYNTHESIS_INTEGRATION

text \<open>\<^verbatim>\<open>list(VariantType)\<close>\<close>

definition all_variant_types :: "VariantType list" where
  "all_variant_types =
     [PERSPECTIVE_SHIFT, STRUCTURE_REORGANIZATION, DEPTH_ENHANCEMENT,
      BREADTH_EXPANSION, CRITICAL_ANALYSIS, SYNTHESIS_INTEGRATION]"

fun variant_type_value :: "VariantType \<Rightarrow> string" where
  "variant_type_value PERSPECTIVE_SHIFT = ''perspective_shift''"
| "variant_type_value STRUCTURE_REORGANIZATION = ''structure_reorganization''"
| "variant_type_value DEPTH_ENHANCEMENT = ''depth_enhancement''"
| "variant_type_value BREADTH_EXPANSION = ''breadth_expansion''"
| "variant_type_value CRITICAL_ANALYSIS = ''critical_analysis''"
| "variant_type_value SYNTHESIS_INTEGRATION = ''synthesis_integration''"

text \<open>\<^verbatim>\<open>str(variant_type)\<close>, as an f-string renders an Enum member.\<close>

fun variant_type_str :: "VariantType \<Rightarrow> string" where
  "variant_type_str PERSPECTIVE_SHIFT = ''VariantType.PERSPECTIVE_SHIFT''"
| "variant_type_str STRUCTURE_REORGANIZATION = ''VariantType.STRUCTURE_REORGANIZATION''"
| "variant_type_str DEPTH_ENHANCEMENT = ''VariantType.DEPTH_ENHANCEMENT''"
| "variant_type_str BREADTH_EXPANSION = ''VariantType.BREADTH_EXPANSION''"
| "variant_type_str CRITICAL_ANALYSIS = ''VariantType.CRITICAL_ANALYSIS''"
| "variant_type_str SYNTHESIS_INTEGRATION = ''VariantType.SYNTHESIS_INTEGRATION''"

datatype EvaluationDimension =
    ACCURACY
  | COMPLETENESS
  | COHERENCE
  | ORIGINALITY
  | EVIDENCE_QUALITY
  | LOGICAL_FLOW
  | CRITICAL_THINKING
  | SYNTHESIS_QUALITY

text \<open>\<^verbatim>\<open>list(EvaluationDimension)\<close>\<close>

definition all_dimensions :: "EvaluationDimension list" where
  "all_dimensions =
     [ACCURACY, COMPLETENESS, COHERENCE, ORIGINALITY,
      EVIDENCE_QUALITY, LOGICAL_FLOW, CRITICAL_THINKING, SYNTHESIS_QUALITY]"

fun dimension_value :: "EvaluationDimension \<Rightarrow> string" where
  "dimension_value ACCURACY = ''accuracy''"
| "dimension_value COMPLETENESS = ''completeness''"
| "dimension_value COHERENCE = ''coherence''"
| "dimension_value ORIGINALITY = ''originality''"
| "dimension_value EVIDENCE_QUALITY = ''evidence_quality''"
| "dimension_value LOGICAL_FLOW = ''logical_flow''"
| "dimension_value CRITICAL_THINKING = ''critical_thinking''"
| "dimension_value SYNTHESIS_QUALITY = ''synthesis_quality''"

text \<open>
  \<^verbatim>\<open>SearchResult\<close> of \<^verbatim>\<open>iterative_researcher_agent.py\<close>; its field names carry the
  prefix \<open>sr_\<close> because \<open>content\<close> and \<open>timestamp\<close> are fields of other records too.
  The enum \<^verbatim>\<open>SearchResultType\<close> is kept as its string value.
\<close>

record SearchResult =
  sr_result_id :: string
  sr_url :: string
  sr_title :: string
  sr_content :: string
  sr_source_type :: string
  sr_quality_score :: real
  sr_relevance_score :: real
  sr_timestamp :: string
  sr_search_query :: string
  sr_extraction_method :: string

record ContentRequirements =
  required_elements :: "string list"
  key_concepts :: "string list"
  evidence_types :: "string list"

text \<open>
  \<^verbatim>\<open>Section\<close> of \<^verbatim>\<open>research_planner_agent.py\<close>, with the fields the engine reads or
  that identify it. \<^verbatim>\<open>evolve_content\<close> accepts any truthy object as target section;
  the system integrator of the repository passes a plain \<^verbatim>\<open>dict\<close>, on which the
  attribute access \<^verbatim>\<open>target_section.content_requirements\<close> raises
  \<^verbatim>\<open>AttributeError\<close>. Both kinds of value are represented.
\<close>

record Section =
  section_id :: string
  title :: string
  description :: string
  target_length :: int
  priority :: int
  dependencies :: "string list"
  content_requirements :: ContentRequirements

datatype target_section_value =
    SectionObject Section
  | PlainDict

definition get_content_requirements :: "target_section_value \<Rightarrow> py_error + ContentRequirements" where
  "get_content_requirements ts =
     (case ts of
        SectionObject sec \<Rightarrow> Inr (content_requirements sec)
      | PlainDict \<Rightarrow>
          Inl (AttributeError ''content_requirements''))"

text \<open>
  The dataclasses of \<^verbatim>\<open>self_evolution_agent.py\<close>. Where two of them have a field of
  the same name, or a field has the name of a variable of the functions below, the
  field carries a prefix: \<open>req_\<close> in the request, \<open>cp_\<close> in the critique point,
  \<open>it_\<close> in the iteration record and \<open>ep_\<close> in the progress record. The two dicts of
  the request and the dict \<^verbatim>\<open>plateau_detection\<close> of the progress record are always
  empty in the source.
\<close>

record VariantGenerationRequest =
  req_base_content :: string
  req_research_results :: "SearchResult list"
  req_target_section :: target_section_value
  req_variant_type :: VariantType
  generation_parameters :: "(string \<times> string) list"
  context_information :: "(string \<times> string) list"

record ContentVariant =
  variant_id :: string
  variant_type :: VariantType
  content :: string
  generation_strategy :: string
  base_content_id :: string
  quality_scores :: "(string \<times> real) list"
  improvement_rationale :: string
  generation_timestamp :: string
  tokens_generated :: nat

record CritiquePoint =
  cp_critique_id :: string
  dimension :: EvaluationDimension
  severity :: int
  issue_description :: string
  suggested_improvement :: string
  evidence_required :: "string list"
  priority_level :: int

record ComprehensiveCritique =
  critique_id :: string
  target_variant_id :: string
  overall_score :: real
  dimension_scores :: "(string \<times> real) list"
  critique_points :: "CritiquePoint list"
  improvement_priorities :: "string list"
  strengths_identified :: "string list"
  revision_recommendations :: "string list"
  timestamp :: string

record EvolutionIteration =
  iteration_id :: string
  iteration_number :: int
  base_variants :: "string list"
  generated_variants :: "ContentVariant list"
  it_critiques :: "ComprehensiveCritique list"
  merged_result :: "string option"
  quality_improvement :: real
  convergence_metrics :: "(string \<times> real) list"
  duration_seconds :: real
  it_timestamp :: string

record EvolutionProgress =
  evolution_id :: string
  total_iterations :: int
  completed_iterations :: int
  current_best_score :: real
  score_history :: "real list"
  ep_convergence_threshold :: real
  plateau_detection :: "(string \<times> string) list"
  estimated_completion :: string
  last_updated :: string

section \<open>VariantGenerator\<close>

text \<open>
  \<^verbatim>\<open>self.generation_strategies\<close> is a dispatch table from variant type to a strategy
  function that returns the new content and a rationale, or raises. The table is an
  argument of the model: it stands for the generation oracle behind the six strategies.
\<close>

type_synonym strategy_func = "VariantGenerationRequest \<Rightarrow> py_error + (string \<times> string)"

definition create_fallback_variant ::
  "py_runtime \<Rightarrow> clock \<Rightarrow> VariantGenerationRequest \<Rightarrow> ContentVariant" where
  "create_fallback_variant rt now request =
     \<lparr> variant_id = take 12 (md5_hexdigest rt (''fallback_'' @ now 0)),
       variant_type = req_variant_type request,
       content = req_base_content request,
       generation_strategy = ''fallback'',
       base_content_id = take 12 (md5_hexdigest rt (req_base_content request)),
       quality_scores = [(''overall'', 0.5)],
       improvement_rationale = ''Fallback variant due to generation failure'',
       generation_timestamp = now 1,
       tokens_generated = length (py_split_ws (req_base_content request)) \<rparr>"

text \<open>
  \<^verbatim>\<open>generate_variant\<close>: the body of the \<^verbatim>\<open>try\<close> first, then the function with its
  \<^verbatim>\<open>except Exception\<close>. Clock readings 0 and 2 of the body are the start time and the
  duration, which the variant does not keep.
\<close>

definition try_generate_variant ::
  "py_runtime \<Rightarrow> clock \<Rightarrow> (VariantType \<Rightarrow> strategy_func option) \<Rightarrow> VariantGenerationRequest
     \<Rightarrow> py_error + ContentVariant" where
  "try_generate_variant rt now generation_strategies request =
     (case generation_strategies (req_variant_type request) of
        None \<Rightarrow>
          Inl (ValueError (''Unknown variant type: '' @ variant_type_str (req_variant_type request)))
      | Some strategy_func \<Rightarrow>
          (case strategy_func request of
             Inl e \<Rightarrow> Inl e
           | Inr (variant_content, rationale) \<Rightarrow>
               Inr \<lparr> variant_id =
                       take 12 (md5_hexdigest rt
                         (req_base_content request @ ''_'' @ variant_type_str (req_variant_type request)
                            @ ''_'' @ now 1)),
                     variant_type = req_variant_type request,
                     content = variant_content,
                     generation_strategy = ''task_tool_'' @ variant_type_value (req_variant_type request),
                     base_content_id = take 12 (md5_hexdigest rt (req_base_content request)),
                     quality_scores = [],
                     improvement_rationale = rationale,
                     generation_timestamp = now 3,
                     tokens_generated = length (py_split_ws variant_content) \<rparr>))"

definition generate_variant ::
  "py_runtime \<Rightarrow> clock \<Rightarrow> (VariantType \<Rightarrow> strategy_func option) \<Rightarrow> VariantGenerationRequest
     \<Rightarrow> ContentVariant" where
  "generate_variant rt now generation_strategies request =
     (case try_generate_variant rt now generation_strategies request of
        Inr variant \<Rightarrow> variant
      | Inl e \<Rightarrow> create_fallback_variant rt (\<lambda>i. now (i + 1)) request)"

section \<open>LLMJudgeEvaluator\<close>

text \<open>
  \<^verbatim>\<open>self.evaluation_criteria\<close>, in the order of the dict: dimension, weight and
  description. The rubric texts take no part in any computation and are left out.
\<close>

definition evaluation_criteria :: "(EvaluationDimension \<times> real \<times> string) list" where
  "evaluation_criteria =
     [(ACCURACY, 0.2, ''Factual correctness and evidence alignment''),
      (COMPLETENESS, 0.15, ''Coverage of required topics and aspects''),
      (COHERENCE, 0.15, ''Logical flow and structural organization''),
      (ORIGINALITY, 0.1, ''Novel insights and creative analysis''),
      (EVIDENCE_QUALITY, 0.15, ''Quality and integration of supporting evidence''),
      (LOGICAL_FLOW, 0.1, ''Reasoning quality and argumentative structure''),
      (CRITICAL_THINKING, 0.1, ''Critical analysis and evaluation depth''),
      (SYNTHESIS_QUALITY, 0.05, ''Integration of multiple perspectives and sources'')]"

definition high_quality_count :: "SearchResult list \<Rightarrow> nat" where
  "high_quality_count evidence = length (filter (\<lambda>r. 0.7 < sr_quality_score r) evidence)"

text \<open>
  The score before the random term and the clamp. Only the completeness branch reads
  the target section, so only it can raise.
\<close>

definition base_dimension_score ::
  "string \<Rightarrow> EvaluationDimension \<Rightarrow> target_section_value \<Rightarrow> SearchResult list \<Rightarrow> py_error + real" where
  "base_dimension_score content_text dimen ts evidence =
     (case dimen of
        ACCURACY \<Rightarrow>
          Inr (3.0
               + (if any_in [''research shows'', ''study found'', ''data indicates'']
                       (py_lower content_text) then 0.5 else 0)
               + (if any_in [''according to'', ''evidence suggests''] (py_lower content_text)
                  then 0.3 else 0)
               + (if 2 < high_quality_count evidence then 0.2 else 0))
      | COMPLETENESS \<Rightarrow>
          (case get_content_requirements ts of
             Inl e \<Rightarrow> Inl e
           | Inr reqs \<Rightarrow>
               (let covered_elements =
                      length (filter (\<lambda>elem. py_in (py_lower elem) (py_lower content_text))
                                (required_elements reqs));
                    coverage_ratio =
                      real covered_elements / real (max (length (required_elements reqs)) 1)
                in Inr (1.0 + coverage_ratio * 4.0)))
      | COHERENCE \<Rightarrow>
          Inr (3.0
               + (if 3 \<le> length (py_split [CHR 10, CHR 10] content_text) then 0.5 else 0)
               + (if any_in [''therefore'', ''however'', ''furthermore'', ''consequently'']
                       (py_lower content_text) then 0.3 else 0))
      | EVIDENCE_QUALITY \<Rightarrow>
          Inr (1.0 + min (real (high_quality_count evidence) / 3.0) 1.0 * 4.0)
      | _ \<Rightarrow> Inr 3.0)"

text \<open>
  \<^verbatim>\<open>_calculate_dimension_score\<close>; \<open>u\<close> is the value that \<^verbatim>\<open>random.uniform(-0.2, 0.2)\<close>
  returns to this call.
\<close>

definition calculate_dimension_score ::
  "real \<Rightarrow> string \<Rightarrow> EvaluationDimension \<Rightarrow> target_section_value \<Rightarrow> SearchResult list
     \<Rightarrow> py_error + real" where
  "calculate_dimension_score u content_text dimen ts evidence =
     (case base_dimension_score content_text dimen ts evidence of
        Inl e \<Rightarrow> Inl e
      | Inr base_score \<Rightarrow> Inr (max 1.0 (min 5.0 (base_score + u))))"

fun get_improvement_suggestion :: "EvaluationDimension \<Rightarrow> string" where
  "get_improvement_suggestion ACCURACY =
     ''Strengthen factual claims with additional evidence and citations''"
| "get_improvement_suggestion COMPLETENESS =
     ''Address missing required elements and expand coverage''"
| "get_improvement_suggestion COHERENCE = ''Improve logical flow and paragraph transitions''"
| "get_improvement_suggestion ORIGINALITY =
     ''Add unique insights and creative analytical perspectives''"
| "get_improvement_suggestion EVIDENCE_QUALITY = ''Integrate higher-quality sources and evidence''"
| "get_improvement_suggestion LOGICAL_FLOW = ''Strengthen reasoning and argumentative structure''"
| "get_improvement_suggestion CRITICAL_THINKING =
     ''Add critical evaluation and alternative perspectives''"
| "get_improvement_suggestion SYNTHESIS_QUALITY =
     ''Better integrate multiple sources and viewpoints''"

fun get_evidence_requirements :: "EvaluationDimension \<Rightarrow> string list" where
  "get_evidence_requirements ACCURACY =
     [''peer-reviewed sources'', ''recent data'', ''authoritative references'']"
| "get_evidence_requirements COMPLETENESS =
     [''comprehensive coverage'', ''additional perspectives'', ''missing elements'']"
| "get_evidence_requirements COHERENCE =
     [''clear transitions'', ''logical structure'', ''topic sentences'']"
| "get_evidence_requirements EVIDENCE_QUALITY =
     [''high-impact sources'', ''primary research'', ''expert opinions'']"
| "get_evidence_requirements _ = [''general supporting evidence'']"

text \<open>
  \<^verbatim>\<open>_generate_dimension_critique_points\<close>; \<open>stamp\<close> is the clock reading that goes into
  the identifier of the point.
\<close>

definition generate_dimension_critique_points ::
  "py_runtime \<Rightarrow> string \<Rightarrow> EvaluationDimension \<Rightarrow> real \<Rightarrow> string \<Rightarrow> CritiquePoint list" where
  "generate_dimension_critique_points rt stamp dimen score descr =
     (if score < 3.0 then
        [\<lparr> cp_critique_id = take 8 (md5_hexdigest rt (dimension_value dimen @ ''_'' @ stamp)),
           dimension = dimen,
           severity = py_int (4 - score),
           issue_description = ''Score '' @ format_1f rt score @ ''/5.0 for '' @ descr,
           suggested_improvement = get_improvement_suggestion dimen,
           evidence_required = get_evidence_requirements dimen,
           priority_level = py_int (4 - score) \<rparr>]
      else [])"

text \<open>
  What one call of \<^verbatim>\<open>evaluate_variant\<close> takes from outside: the random term of each
  dimension, the clock reading for the critique point of each dimension, and the
  readings of the call itself.
\<close>

record judge_env =
  uniform :: "EvaluationDimension \<Rightarrow> real"
  point_now :: "EvaluationDimension \<Rightarrow> string"
  eval_now :: clock

definition evaluate_dimension ::
  "py_runtime \<Rightarrow> judge_env \<Rightarrow> string \<Rightarrow> EvaluationDimension \<Rightarrow> string \<Rightarrow> target_section_value
     \<Rightarrow> SearchResult list \<Rightarrow> py_error + (real \<times> CritiquePoint list)" where
  "evaluate_dimension rt je content_text dimen descr ts evidence =
     (case calculate_dimension_score (uniform je dimen) content_text dimen ts evidence of
        Inl e \<Rightarrow> Inl e
      | Inr score \<Rightarrow>
          Inr (score, generate_dimension_critique_points rt (point_now je dimen) dimen score descr))"

text \<open>The loop of \<^verbatim>\<open>evaluate_variant\<close> over the criteria; the first exception ends it.\<close>

fun evaluate_dimensions ::
  "py_runtime \<Rightarrow> judge_env \<Rightarrow> string \<Rightarrow> target_section_value \<Rightarrow> SearchResult list
     \<Rightarrow> (EvaluationDimension \<times> real \<times> string) list
     \<Rightarrow> (string \<times> real) list \<times> CritiquePoint list
     \<Rightarrow> py_error + ((string \<times> real) list \<times> CritiquePoint list)" where
  "evaluate_dimensions rt je content_text ts evidence [] acc = Inr acc"
| "evaluate_dimensions rt je content_text ts evidence ((dimen, weight, descr) # rest) (scores, points) =
     (case evaluate_dimension rt je content_text dimen descr ts evidence of
        Inl e \<Rightarrow> Inl e
      | Inr (score, new_points) \<Rightarrow>
          evaluate_dimensions rt je content_text ts evidence rest
            (AList.update (dimension_value dimen) score scores, points @ new_points))"

text \<open>
  \<^verbatim>\<open>sum(dimension_scores[dimen.value] * criteria['weight'] for ...)\<close>, from left to right,
  with the \<^verbatim>\<open>KeyError\<close> of a missing key.
\<close>

fun weighted_sum ::
  "(string \<times> real) list \<Rightarrow> (EvaluationDimension \<times> real \<times> string) list \<Rightarrow> real \<Rightarrow> py_error + real" where
  "weighted_sum scores [] acc = Inr acc"
| "weighted_sum scores ((dimen, weight, descr) # rest) acc =
     (case map_of scores (dimension_value dimen) of
        None \<Rightarrow> Inl (KeyError (dimension_value dimen))
      | Some score \<Rightarrow> weighted_sum scores rest (acc + score * weight))"

definition generate_improvement_priorities :: "py_runtime \<Rightarrow> (string \<times> real) list \<Rightarrow> string list" where
  "generate_improvement_priorities rt scores =
     map (\<lambda>(dimen, score). ''Improve '' @ dimen @ '' (current: '' @ format_1f rt score @ ''/5.0)'')
       (filter (\<lambda>(dimen, score). score < 3.5) (take 3 (sort_key snd scores)))"

definition identify_strengths :: "py_runtime \<Rightarrow> (string \<times> real) list \<Rightarrow> string list" where
  "identify_strengths rt scores =
     map (\<lambda>(dimen, score). ''Strong '' @ dimen @ '' (score: '' @ format_1f rt score @ ''/5.0)'')
       (filter (\<lambda>(dimen, score). 4.0 \<le> score) scores)"

definition generate_revision_recommendations :: "CritiquePoint list \<Rightarrow> string list" where
  "generate_revision_recommendations points =
     (let high_priority = filter (\<lambda>cp. 4 \<le> priority_level cp) points;
          medium_priority = filter (\<lambda>cp. priority_level cp = 3) points
      in map (\<lambda>cp. ''HIGH PRIORITY: '' @ suggested_improvement cp) high_priority
         @ map (\<lambda>cp. ''MEDIUM PRIORITY: '' @ suggested_improvement cp) (take 2 medium_priority))"

definition create_fallback_critique ::
  "py_runtime \<Rightarrow> string \<Rightarrow> ContentVariant \<Rightarrow> ComprehensiveCritique" where
  "create_fallback_critique rt stamp variant =
     \<lparr> critique_id = take 12 (md5_hexdigest rt (''fallback_'' @ variant_id variant)),
       target_variant_id = variant_id variant,
       overall_score = 3.0,
       dimension_scores = map (\<lambda>dimen. (dimension_value dimen, 3.0)) all_dimensions,
       critique_points = [],
       improvement_priorities = [''General improvement needed''],
       strengths_identified = [''Content generated successfully''],
       revision_recommendations = [''Review and refine content''],
       timestamp = stamp \<rparr>"

text \<open>
  \<^verbatim>\<open>evaluate_variant\<close>: the body of the \<^verbatim>\<open>try\<close>, then the function with its
  \<^verbatim>\<open>except Exception\<close>. Reading 0 of the clock is the start time, reading 1 goes into
  the identifier, reading 2 is the time stamp; the fallback critique takes the reading
  after the start time.
\<close>

definition try_evaluate_variant ::
  "py_runtime \<Rightarrow> judge_env \<Rightarrow> ContentVariant \<Rightarrow> target_section_value \<Rightarrow> SearchResult list
     \<Rightarrow> py_error + ComprehensiveCritique" where
  "try_evaluate_variant rt je variant ts research_evidence =
     (case evaluate_dimensions rt je (content variant) ts research_evidence
             evaluation_criteria ([], []) of
        Inl e \<Rightarrow> Inl e
      | Inr (scores, points) \<Rightarrow>
          (case weighted_sum scores evaluation_criteria 0 of
             Inl e \<Rightarrow> Inl e
           | Inr overall \<Rightarrow>
               Inr \<lparr> critique_id =
                       take 12 (md5_hexdigest rt (variant_id variant @ ''_'' @ eval_now je 1)),
                     target_variant_id = variant_id variant,
                     overall_score = overall,
                     dimension_scores = scores,
                     critique_points = points,
                     improvement_priorities = generate_improvement_priorities rt scores,
                     strengths_identified = identify_strengths rt scores,
                     revision_recommendations = generate_revision_recommendations points,
                     timestamp = eval_now je 2 \<rparr>))"

definition evaluate_variant ::
  "py_runtime \<Rightarrow> judge_env \<Rightarrow> ContentVariant \<Rightarrow> target_section_value \<Rightarrow> SearchResult list
     \<Rightarrow> ComprehensiveCritique" where
  "evaluate_variant rt je variant ts research_evidence =
     (case try_evaluate_variant rt je variant ts research_evidence of
        Inr critique \<Rightarrow> critique
      | Inl e \<Rightarrow> create_fallback_critique rt (eval_now je 1) variant)"

section \<open>VariantMerger\<close>

definition nn :: string where
  "nn = [CHR 10, CHR 10]"

text \<open>\<^verbatim>\<open>{c.target_variant_id: c for c in critiques}\<close>\<close>

definition critique_map_of ::
  "ComprehensiveCritique list \<Rightarrow> (string \<times> ComprehensiveCritique) list" where
  "critique_map_of cs = fold (\<lambda>c m. AList.update (target_variant_id c) c m) cs []"

text \<open>The score of a variant in a critique map, with the default of the call site.\<close>

definition score_or ::
  "real \<Rightarrow> (string \<times> ComprehensiveCritique) list \<Rightarrow> string \<Rightarrow> real" where
  "score_or dflt critique_map vid =
     (case map_of critique_map vid of Some c \<Rightarrow> overall_score c | None \<Rightarrow> dflt)"

text \<open>The dict \<^verbatim>\<open>variant_sections\<close> of \<^verbatim>\<open>_merge_best_sections\<close>.\<close>

definition variant_sections_of :: "ContentVariant list \<Rightarrow> (string \<times> string list) list" where
  "variant_sections_of variants =
     fold (\<lambda>v m. AList.update (variant_id v) (py_split nn (content v)) m) variants []"

text \<open>
  One pass of the loop over \<^verbatim>\<open>section_idx\<close>: the candidates are content, quality and
  variant id; the result is what the pass appends to \<^verbatim>\<open>merged_sections\<close>.
\<close>

definition best_section_at ::
  "(string \<times> ComprehensiveCritique) list \<Rightarrow> (string \<times> string list) list \<Rightarrow> nat \<Rightarrow> string list" where
  "best_section_at critique_map variant_sections section_idx =
     (let section_candidates =
            map (\<lambda>(vid, sections). (sections ! section_idx, score_or 3.0 critique_map vid, vid))
              (filter (\<lambda>(vid, sections). section_idx < length sections) variant_sections)
      in (case py_max_by (\<lambda>(c, q, vid). q) section_candidates of
            Inl e \<Rightarrow> []
          | Inr (c, q, vid) \<Rightarrow> [c]))"

definition merge_best_sections ::
  "ContentVariant list \<Rightarrow> ComprehensiveCritique list \<Rightarrow> py_error + string" where
  "merge_best_sections variants critiques =
     (let critique_map = critique_map_of critiques;
          variant_sections = variant_sections_of variants
      in (case py_max (map (\<lambda>(vid, sections). length sections) variant_sections) of
            Inl e \<Rightarrow> Inl e
          | Inr max_sections \<Rightarrow>
              Inr (py_join nn
                     (concat (map (best_section_at critique_map variant_sections)
                                [0 ..< max_sections])))))"

definition extract_key_sentences :: "string \<Rightarrow> string list" where
  "extract_key_sentences content_text =
     take 5
       (map (\<lambda>sentence. py_strip sentence @ ''.'')
          (filter
             (\<lambda>sentence.
                any_in [''important'', ''significant'', ''key'', ''crucial'', ''essential'',
                        ''research shows'', ''study found''] (py_lower sentence))
             (py_split ''. '' content_text)))"

definition organize_synthesis :: "string list \<Rightarrow> string" where
  "organize_synthesis synthesis_parts =
     (if synthesis_parts = [] then ''No synthesis possible from available content.''
      else py_join [CHR 10]
             ([''Synthesized Analysis:''] @ take 3 synthesis_parts
              @ [CHR 10 # ''Key Findings:''] @ take 3 (drop 3 synthesis_parts)
              @ (if 6 < length synthesis_parts
                 then [CHR 10 # ''Additional Insights:''] @ drop 6 synthesis_parts
                 else [])))"

text \<open>
  \<^verbatim>\<open>_merge_weighted_synthesis\<close>; the division raises when the scores sum to zero,
  at the first variant of the loop.
\<close>

definition merge_weighted_synthesis ::
  "ContentVariant list \<Rightarrow> ComprehensiveCritique list \<Rightarrow> py_error + string" where
  "merge_weighted_synthesis variants critiques =
     (if variants = [] then Inr []
      else
        (let critique_map = critique_map_of critiques;
             total_score = sum_list (map (\<lambda>v. score_or 3.0 critique_map (variant_id v)) variants)
         in if total_score = 0 then Inl (ZeroDivisionError ''float division by zero'')
            else
              Inr (organize_synthesis
                     (concat
                        (map (\<lambda>v.
                                (let weight = score_or 3.0 critique_map (variant_id v) / total_score;
                                     key_sentences = extract_key_sentences (content v)
                                 in if 0.3 < weight
                                    then take (nat (py_int (real (length key_sentences) * weight)))
                                           key_sentences
                                    else []))
                           variants)))))"

text \<open>\<^verbatim>\<open>Counter(words)\<close>: the counts, in the order of first occurrence.\<close>

definition counter :: "string list \<Rightarrow> (string \<times> nat) list" where
  "counter ws =
     fold (\<lambda>w m. AList.update w (case map_of m w of None \<Rightarrow> 1 | Some n \<Rightarrow> n + 1) m) ws []"

text \<open>\<^verbatim>\<open>most_common(n)\<close>: by decreasing count, equal counts in the order of the counter.\<close>

definition most_common :: "nat \<Rightarrow> (string \<times> nat) list \<Rightarrow> (string \<times> nat) list" where
  "most_common n counts = take n (sort_key (\<lambda>(w, k). - int k) counts)"

definition identify_common_themes :: "ContentVariant list \<Rightarrow> string list" where
  "identify_common_themes variants =
     (let all_keywords =
            concat (map (\<lambda>v. filter (\<lambda>w. 4 < length w) (findall_words (py_lower (content v))))
                      variants)
      in map fst
           (filter (\<lambda>(w, k). real (length variants) * 0.6 \<le> real k)
              (most_common 5 (counter all_keywords))))"

definition find_supporting_variants :: "string \<Rightarrow> ContentVariant list \<Rightarrow> ContentVariant list" where
  "find_supporting_variants theme variants =
     filter (\<lambda>v. py_in (py_lower theme) (py_lower (content v))) variants"

definition synthesize_theme :: "string \<Rightarrow> ContentVariant list \<Rightarrow> string" where
  "synthesize_theme theme supporting_variants =
     (let relevant_sentences =
            concat (map (\<lambda>v. map py_strip
                                (filter (\<lambda>sentence. py_in (py_lower theme) (py_lower sentence))
                                   (py_split ''. '' (content v))))
                      supporting_variants)
      in if relevant_sentences \<noteq> []
         then ''Regarding '' @ theme @ '': '' @ py_join ''. '' (take 2 relevant_sentences) @ ''.''
         else ''Common theme identified: '' @ theme)"

definition merge_consensus_building ::
  "ContentVariant list \<Rightarrow> ComprehensiveCritique list \<Rightarrow> py_error + string" where
  "merge_consensus_building variants critiques =
     Inr (py_join nn
            (concat
               (map (\<lambda>theme.
                       (let supporting_variants = find_supporting_variants theme variants
                        in if real (length variants) * 0.6 \<le> real (length supporting_variants)
                           then [synthesize_theme theme supporting_variants]
                           else []))
                  (identify_common_themes variants))))"

definition integrate_improvements :: "string \<Rightarrow> string \<Rightarrow> string" where
  "integrate_improvements base improvement_content =
     (let base_sentences = py_split ''. '' base;
          unique_improvements =
            map py_strip
              (filter
                 (\<lambda>sentence.
                    py_strip sentence \<noteq> [] \<and> \<not> List.member base_sentences sentence
                    \<and> any_in [''however'', ''furthermore'', ''additionally'', ''moreover'',
                              ''research indicates''] (py_lower sentence))
                 (py_split ''. '' improvement_content))
      in if unique_improvements \<noteq> []
         then base @ nn @ py_join ''. '' (take 2 unique_improvements) @ ''.''
         else base)"

text \<open>
  \<^verbatim>\<open>_merge_hierarchical_integration\<close>; \<^verbatim>\<open>sorted(..., reverse=True)\<close> keeps the order of
  variants with equal scores.
\<close>

definition merge_hierarchical_integration ::
  "ContentVariant list \<Rightarrow> ComprehensiveCritique list \<Rightarrow> py_error + string" where
  "merge_hierarchical_integration variants critiques =
     (let critique_map = critique_map_of critiques
      in (case sort_key (\<lambda>v. - score_or 3.0 critique_map (variant_id v)) variants of
            [] \<Rightarrow> Inl (IndexError ''list index out of range'')
          | best # others \<Rightarrow>
              Inr (fold (\<lambda>v base. integrate_improvements base (content v)) others (content best))))"

definition select_best_variant ::
  "ContentVariant list \<Rightarrow> ComprehensiveCritique list \<Rightarrow> string" where
  "select_best_variant variants critiques =
     (if variants = [] then []
      else if critiques = [] then content (hd variants)
      else
        (case py_max_by (\<lambda>v. score_or 0.0 (critique_map_of critiques) (variant_id v)) variants of
           Inl e \<Rightarrow> []
         | Inr best_variant \<Rightarrow> content best_variant))"

text \<open>\<^verbatim>\<open>self.merge_strategies\<close>\<close>

definition merge_strategies ::
  "(string \<times> (ContentVariant list \<Rightarrow> ComprehensiveCritique list \<Rightarrow> py_error + string)) list" where
  "merge_strategies =
     [(''best_sections'', merge_best_sections),
      (''weighted_synthesis'', merge_weighted_synthesis),
      (''consensus_building'', merge_consensus_building),
      (''hierarchical_integration'', merge_hierarchical_integration)]"

text \<open>
  \<^verbatim>\<open>merge_variants\<close>: the body of the \<^verbatim>\<open>try\<close>, then the function with its
  \<^verbatim>\<open>except Exception\<close>.
\<close>

definition try_merge_variants ::
  "ContentVariant list \<Rightarrow> ComprehensiveCritique list \<Rightarrow> string \<Rightarrow> py_error + string" where
  "try_merge_variants variants critiques merge_strategy =
     (case variants of
        [] \<Rightarrow> Inr []
      | [v] \<Rightarrow> Inr (content v)
      | _ \<Rightarrow>
          (case map_of merge_strategies merge_strategy of
             Some merge_func \<Rightarrow> merge_func variants critiques
           | None \<Rightarrow> merge_best_sections variants critiques))"

definition merge_variants ::
  "ContentVariant list \<Rightarrow> ComprehensiveCritique list \<Rightarrow> string \<Rightarrow> string" where
  "merge_variants variants critiques merge_strategy =
     (case try_merge_variants variants critiques merge_strategy of
        Inr merged_content \<Rightarrow> merged_content
      | Inl e \<Rightarrow> select_best_variant variants critiques)"

section \<open>SelfEvolutionAgent\<close>

text \<open>\<^verbatim>\<open>self.config\<close> with its defaults, and the \<^verbatim>\<open>config\<close> dict of the input.\<close>

record config =
  max_iterations :: int
  max_variants_per_iteration :: int
  convergence_threshold :: real
  plateau_detection_window :: int
  quality_improvement_threshold :: real
  parallel_generation :: bool

definition default_config :: config where
  "default_config =
     \<lparr> max_iterations = 5,
       max_variants_per_iteration = 6,
       convergence_threshold = 4.0,
       plateau_detection_window = 3,
       quality_improvement_threshold = 0.1,
       parallel_generation = True \<rparr>"

record custom_config =
  cc_max_iterations :: "int option"
  cc_max_variants_per_iteration :: "int option"
  cc_convergence_threshold :: "real option"
  cc_plateau_detection_window :: "int option"
  cc_quality_improvement_threshold :: "real option"
  cc_parallel_generation :: "bool option"

definition empty_custom_config :: custom_config where
  "empty_custom_config =
     \<lparr> cc_max_iterations = None,
       cc_max_variants_per_iteration = None,
       cc_convergence_threshold = None,
       cc_plateau_detection_window = None,
       cc_quality_improvement_threshold = None,
       cc_parallel_generation = None \<rparr>"

definition or_else :: "'a option \<Rightarrow> 'a \<Rightarrow> 'a" where
  "or_else x dflt = (case x of Some v \<Rightarrow> v | None \<Rightarrow> dflt)"

text \<open>
  \<^verbatim>\<open>self.config.update(custom_config)\<close>; for the empty dict, which the source skips,
  the update changes nothing.
\<close>

definition config_update :: "config \<Rightarrow> custom_config \<Rightarrow> config" where
  "config_update cfg cc =
     \<lparr> max_iterations = or_else (cc_max_iterations cc) (max_iterations cfg),
       max_variants_per_iteration =
         or_else (cc_max_variants_per_iteration cc) (max_variants_per_iteration cfg),
       convergence_threshold = or_else (cc_convergence_threshold cc) (convergence_threshold cfg),
       plateau_detection_window =
         or_else (cc_plateau_detection_window cc) (plateau_detection_window cfg),
       quality_improvement_threshold =
         or_else (cc_quality_improvement_threshold cc) (quality_improvement_threshold cfg),
       parallel_generation = or_else (cc_parallel_generation cc) (parallel_generation cfg) \<rparr>"

text \<open>\<^verbatim>\<open>_detect_plateau\<close>, on the score history of the progress record.\<close>

definition detect_plateau :: "config \<Rightarrow> real list \<Rightarrow> py_error + bool" where
  "detect_plateau cfg hist =
     (let window = plateau_detection_window cfg;
          threshold = quality_improvement_threshold cfg
      in if int (length hist) < window + 1 then Inr False
         else
           (let recent_scores = slice_last hist window
            in (case py_max recent_scores of
                  Inl e \<Rightarrow> Inl e
                | Inr hi \<Rightarrow>
                    (case py_min recent_scores of
                       Inl e \<Rightarrow> Inl e
                     | Inr lo \<Rightarrow> Inr (hi - lo < threshold)))))"

definition plateau_reason :: string where
  "plateau_reason = ''Quality plateau detected - no significant improvement''"

text \<open>\<^verbatim>\<open>_check_convergence\<close>\<close>

definition check_convergence ::
  "py_runtime \<Rightarrow> config \<Rightarrow> real list \<Rightarrow> real \<Rightarrow> int \<Rightarrow> py_error + (bool \<times> string)" where
  "check_convergence rt cfg hist current_score iteration =
     (if max_iterations cfg \<le> iteration then
        Inr (False, ''Reached maximum iterations ('' @ str_int rt (max_iterations cfg) @ '')'')
      else if convergence_threshold cfg \<le> current_score then
        Inr (False, ''Achieved convergence threshold ('' @ format_2f rt current_score @ '' >= ''
                      @ str_float rt (convergence_threshold cfg) @ '')'')
      else
        (case detect_plateau cfg hist of
           Inl e \<Rightarrow> Inl e
         | Inr plateau \<Rightarrow>
             if plateau then Inr (False, plateau_reason) else Inr (True, ''Continue evolution'')))"

text \<open>
  What one iteration takes from outside: a clock for the generation of each variant
  type, a judge environment for each variant by its position, the two readings of the
  iteration itself and its measured duration.
\<close>

record iteration_env =
  gen_now :: "VariantType \<Rightarrow> clock"
  judge :: "nat \<Rightarrow> judge_env"
  iter_now :: clock
  iter_duration :: real

text \<open>
  \<^verbatim>\<open>_generate_variants_task_parallel\<close> and \<^verbatim>\<open>_generate_variants_sequential\<close> have the
  same body. \<^const>\<open>generate_variant\<close> returns a variant in every case, so the
  \<^verbatim>\<open>except\<close> branches around it, and \<^verbatim>\<open>_create_minimal_variant\<close> behind them, are
  never taken.
\<close>

definition generate_variants_task_parallel ::
  "py_runtime \<Rightarrow> iteration_env \<Rightarrow> (VariantType \<Rightarrow> strategy_func option) \<Rightarrow> string
     \<Rightarrow> SearchResult list \<Rightarrow> target_section_value \<Rightarrow> VariantType list \<Rightarrow> ContentVariant list" where
  "generate_variants_task_parallel rt ie strategies base research ts variant_types =
     map (\<lambda>vt. generate_variant rt (gen_now ie vt) strategies
                  \<lparr> req_base_content = base,
                    req_research_results = research,
                    req_target_section = ts,
                    req_variant_type = vt,
                    generation_parameters = [],
                    context_information = [] \<rparr>)
       variant_types"

definition generate_variants_sequential ::
  "py_runtime \<Rightarrow> iteration_env \<Rightarrow> (VariantType \<Rightarrow> strategy_func option) \<Rightarrow> string
     \<Rightarrow> SearchResult list \<Rightarrow> target_section_value \<Rightarrow> VariantType list \<Rightarrow> ContentVariant list" where
  "generate_variants_sequential rt ie strategies base research ts variant_types =
     map (\<lambda>vt. generate_variant rt (gen_now ie vt) strategies
                  \<lparr> req_base_content = base,
                    req_research_results = research,
                    req_target_section = ts,
                    req_variant_type = vt,
                    generation_parameters = [],
                    context_information = [] \<rparr>)
       variant_types"

definition generate_variants_parallel ::
  "py_runtime \<Rightarrow> iteration_env \<Rightarrow> (VariantType \<Rightarrow> strategy_func option) \<Rightarrow> config \<Rightarrow> bool
     \<Rightarrow> string \<Rightarrow> SearchResult list \<Rightarrow> target_section_value \<Rightarrow> ContentVariant list" where
  "generate_variants_parallel rt ie strategies cfg task_tool base research ts =
     (if parallel_generation cfg \<and> task_tool
      then generate_variants_task_parallel rt ie strategies base research ts all_variant_types
      else generate_variants_sequential rt ie strategies base research ts all_variant_types)"

text \<open>
  \<^verbatim>\<open>_evaluate_variants\<close>: the critiques, and the variants as the loop leaves them, since
  it assigns \<^verbatim>\<open>variant.quality_scores = critique.dimension_scores\<close> to each.
\<close>

fun evaluate_variants_from ::
  "py_runtime \<Rightarrow> (nat \<Rightarrow> judge_env) \<Rightarrow> target_section_value \<Rightarrow> SearchResult list \<Rightarrow> nat
     \<Rightarrow> ContentVariant list \<Rightarrow> ComprehensiveCritique list \<times> ContentVariant list" where
  "evaluate_variants_from rt jes ts research i [] = ([], [])"
| "evaluate_variants_from rt jes ts research i (variant # rest) =
     (let critique = evaluate_variant rt (jes i) variant ts research;
          (cs, vs) = evaluate_variants_from rt jes ts research (Suc i) rest
      in (critique # cs, variant\<lparr>quality_scores := dimension_scores critique\<rparr> # vs))"

definition evaluate_variants ::
  "py_runtime \<Rightarrow> (nat \<Rightarrow> judge_env) \<Rightarrow> ContentVariant list \<Rightarrow> target_section_value
     \<Rightarrow> SearchResult list \<Rightarrow> ComprehensiveCritique list \<times> ContentVariant list" where
  "evaluate_variants rt jes variants ts research =
     evaluate_variants_from rt jes ts research 0 variants"

text \<open>
  \<^verbatim>\<open>SelfEvolutionAgent._merge_variants\<close>; \<^const>\<open>merge_variants\<close> returns a string in
  every case, so the \<^verbatim>\<open>except\<close> branch is never taken.
\<close>

definition agent_merge_variants ::
  "ContentVariant list \<Rightarrow> ComprehensiveCritique list \<Rightarrow> string" where
  "agent_merge_variants variants cs = merge_variants variants cs ''best_sections''"

text \<open>\<^verbatim>\<open>max(scores)\<close> and \<^verbatim>\<open>min(scores)\<close> of a list whose first element is given.\<close>

definition max_from :: "real \<Rightarrow> real list \<Rightarrow> real" where
  "max_from x rest = fold (\<lambda>y best. if best < y then y else best) rest x"

definition min_from :: "real \<Rightarrow> real list \<Rightarrow> real" where
  "min_from x rest = fold (\<lambda>y best. if y < best then y else best) rest x"

definition calculate_quality_improvement :: "real list \<Rightarrow> ComprehensiveCritique list \<Rightarrow> real" where
  "calculate_quality_improvement hist cs =
     (case map overall_score cs of
        [] \<Rightarrow> 0.0
      | x # rest \<Rightarrow>
          (if 0 < length hist then max_from x rest - last hist else max_from x rest - 3.0))"

definition calculate_variance :: "real list \<Rightarrow> real" where
  "calculate_variance scores =
     (if length scores \<le> 1 then 0.0
      else
        (let mean = sum_list scores / real (length scores)
         in sum_list (map (\<lambda>score. (score - mean) ^ 2) scores) / real (length scores)))"

definition calculate_convergence_metrics :: "ComprehensiveCritique list \<Rightarrow> (string \<times> real) list" where
  "calculate_convergence_metrics cs =
     (case map overall_score cs of
        [] \<Rightarrow> [(''score_variance'', 0.0), (''max_score'', 0.0), (''avg_score'', 0.0)]
      | x # rest \<Rightarrow>
          [(''score_variance'', calculate_variance (x # rest)),
           (''max_score'', max_from x rest),
           (''avg_score'', sum_list (x # rest) / real (length (x # rest))),
           (''score_range'', max_from x rest - min_from x rest),
           (''high_quality_count'', real (length (filter (\<lambda>sc. 4.0 \<le> sc) (x # rest))))])"

record iteration_result =
  ir_best_content :: string
  ir_best_score :: real
  variants_generated :: nat
  iteration_metrics :: "(string \<times> real) list"

text \<open>
  \<^verbatim>\<open>_execute_evolution_iteration\<close>: the result dict and the record that the call appends
  to \<^verbatim>\<open>self.evolution_history\<close>.
\<close>

definition execute_evolution_iteration ::
  "py_runtime \<Rightarrow> iteration_env \<Rightarrow> (VariantType \<Rightarrow> strategy_func option) \<Rightarrow> config \<Rightarrow> bool
     \<Rightarrow> string \<Rightarrow> real list \<Rightarrow> int \<Rightarrow> string \<Rightarrow> SearchResult list \<Rightarrow> target_section_value
     \<Rightarrow> iteration_result \<times> EvolutionIteration" where
  "execute_evolution_iteration rt ie strategies cfg task_tool current_evolution hist
       iteration_no base research ts =
     (let variants = generate_variants_parallel rt ie strategies cfg task_tool base research ts;
          (cs, judged_variants) = evaluate_variants rt (judge ie) variants ts research;
          merged_content = agent_merge_variants judged_variants cs;
          best_score =
            (case map overall_score cs of [] \<Rightarrow> 0.0 | x # rest \<Rightarrow> max_from x rest);
          metrics = calculate_convergence_metrics cs
      in (\<lparr> ir_best_content = merged_content,
            ir_best_score = best_score,
            variants_generated = length judged_variants,
            iteration_metrics = metrics \<rparr>,
          \<lparr> iteration_id = current_evolution @ ''_iter_'' @ str_int rt iteration_no,
            iteration_number = iteration_no,
            base_variants = [take 50 base @ ''...''],
            generated_variants = judged_variants,
            it_critiques = cs,
            merged_result = Some merged_content,
            quality_improvement = calculate_quality_improvement hist cs,
            convergence_metrics = metrics,
            duration_seconds = iter_duration ie,
            it_timestamp = iter_now ie 1 \<rparr>))"

text \<open>
  The agent object: whether \<^verbatim>\<open>self.tools\<close> offers the Task tool, the strategy table of
  its variant generator, its configuration and the state it tracks.
\<close>

record agent =
  task_tool :: bool
  generation_strategies :: "VariantType \<Rightarrow> strategy_func option"
  agent_config :: config
  current_evolution :: "string option"
  evolution_progress :: "EvolutionProgress option"
  evolution_history :: "EvolutionIteration list"

text \<open>
  The loop of \<^verbatim>\<open>evolve_content\<close> changes the best content, the best score, the
  progress record and the history.
\<close>

record run_state =
  rs_best_content :: string
  rs_best_score :: real
  rs_progress :: EvolutionProgress
  rs_history :: "EvolutionIteration list"

text \<open>
  The body of the \<^verbatim>\<open>for\<close> loop up to the convergence check: the iteration, the update
  of the best result and the update of the progress record.
\<close>

definition iteration_step ::
  "py_runtime \<Rightarrow> (nat \<Rightarrow> iteration_env) \<Rightarrow> (VariantType \<Rightarrow> strategy_func option) \<Rightarrow> config
     \<Rightarrow> bool \<Rightarrow> string \<Rightarrow> SearchResult list \<Rightarrow> target_section_value \<Rightarrow> int \<Rightarrow> run_state
     \<Rightarrow> run_state" where
  "iteration_step rt envs strategies cfg task_tl evo_id research ts iteration st =
     (let (iteration_result, evolution_iteration) =
            execute_evolution_iteration rt (envs (nat (iteration + 1))) strategies cfg task_tl
              evo_id (score_history (rs_progress st)) (iteration + 1) (rs_best_content st)
              research ts;
          improved = rs_best_score st < ir_best_score iteration_result;
          best_content = (if improved then ir_best_content iteration_result
                          else rs_best_content st);
          best_score = (if improved then ir_best_score iteration_result else rs_best_score st)
      in \<lparr> rs_best_content = best_content,
           rs_best_score = best_score,
           rs_progress =
             (rs_progress st)
               \<lparr> completed_iterations := completed_iterations (rs_progress st) + 1,
                 score_history := score_history (rs_progress st) @ [best_score],
                 current_best_score := best_score \<rparr>,
           rs_history = rs_history st @ [evolution_iteration] \<rparr>)"

text \<open>
  \<^verbatim>\<open>for iteration in range(max_iterations)\<close> with its \<^verbatim>\<open>break\<close>, over the values that
  are left of the range. An exception of the convergence check ends the loop with the
  state reached.
\<close>

fun evolve_iterations ::
  "py_runtime \<Rightarrow> (nat \<Rightarrow> iteration_env) \<Rightarrow> (VariantType \<Rightarrow> strategy_func option) \<Rightarrow> config
     \<Rightarrow> bool \<Rightarrow> string \<Rightarrow> SearchResult list \<Rightarrow> target_section_value \<Rightarrow> int list \<Rightarrow> run_state
     \<Rightarrow> py_error option \<times> run_state" where
  "evolve_iterations rt envs strategies cfg task_tl evo_id research ts [] st = (None, st)"
| "evolve_iterations rt envs strategies cfg task_tl evo_id research ts (iteration # rest) st =
     (let st1 = iteration_step rt envs strategies cfg task_tl evo_id research ts iteration st
      in (case check_convergence rt cfg (score_history (rs_progress st1)) (rs_best_score st1)
                 (iteration + 1) of
            Inl e \<Rightarrow> (Some e, st1)
          | Inr (should_continue, reason) \<Rightarrow>
              if should_continue
              then evolve_iterations rt envs strategies cfg task_tl evo_id research ts rest st1
              else (None, st1)))"

text \<open>\<^verbatim>\<open>range(n)\<close>\<close>

definition py_range :: "int \<Rightarrow> int list" where
  "py_range n = map int [0 ..< nat n]"

text \<open>
  The input dict of \<^verbatim>\<open>evolve_content\<close>: each key is absent (\<open>None\<close>) or holds a
  value; a \<^verbatim>\<open>target_section\<close> of \<^verbatim>\<open>None\<close> is as an absent one.
\<close>

record input_data =
  in_content :: "string option"
  in_research_results :: "SearchResult list option"
  in_target_section :: "target_section_value option"
  in_config :: "custom_config option"

text \<open>
  The dict that \<^verbatim>\<open>evolve_content\<close> returns. The entry \<^verbatim>\<open>final_analysis\<close> of a success,
  a report that \<^verbatim>\<open>_compile_evolution_results\<close> derives from the same state without
  changing it, is not represented.
\<close>

record success_result =
  res_evolution_id :: string
  final_content :: string
  final_score :: real
  iterations_completed :: int
  improvement_achieved :: real
  res_evolution_history :: "EvolutionIteration list"

record error_result =
  error :: string
  err_evolution_id :: "string option"
  partial_results :: "EvolutionIteration list"

datatype evolve_result =
    Success success_result
  | Error error_result

fun status :: "evolve_result \<Rightarrow> string" where
  "status (Success r) = ''success''"
| "status (Error r) = ''error''"

text \<open>
  \<^verbatim>\<open>evolve_content\<close>: the returned dict and the agent after the call. Reading 0 of the
  clock goes into the evolution id, reading 1 is \<^verbatim>\<open>last_updated\<close>.
\<close>

definition evolve_content ::
  "py_runtime \<Rightarrow> clock \<Rightarrow> (nat \<Rightarrow> iteration_env) \<Rightarrow> agent \<Rightarrow> input_data
     \<Rightarrow> evolve_result \<times> agent" where
  "evolve_content rt now envs ag inp =
     (let evo_id = take 12 (md5_hexdigest rt (''evolution_'' @ now 0));
          ag1 = ag\<lparr>current_evolution := Some evo_id\<rparr>;
          base = or_else (in_content inp) [];
          research = or_else (in_research_results inp) []
      in (case (if base = [] then None else in_target_section inp) of
            None \<Rightarrow>
              (Error \<lparr> error =
                         py_error_str
                           (ValueError ''Missing required input: content or target_section''),
                       err_evolution_id = Some evo_id,
                       partial_results = evolution_history ag1 \<rparr>,
               ag1)
          | Some ts \<Rightarrow>
              (let cfg = config_update (agent_config ag1) (or_else (in_config inp) empty_custom_config);
                   progress0 =
                     \<lparr> evolution_id = evo_id,
                       total_iterations = max_iterations cfg,
                       completed_iterations = 0,
                       current_best_score = 0.0,
                       score_history = [],
                       ep_convergence_threshold = convergence_threshold cfg,
                       plateau_detection = [],
                       estimated_completion = [],
                       last_updated = now 1 \<rparr>;
                   st0 = \<lparr> rs_best_content = base,
                           rs_best_score = 0.0,
                           rs_progress = progress0,
                           rs_history = evolution_history ag1 \<rparr>;
                   (failure, st) =
                     evolve_iterations rt envs (generation_strategies ag1) cfg (task_tool ag1)
                       evo_id research ts (py_range (max_iterations cfg)) st0;
                   ag2 = ag1\<lparr> agent_config := cfg,
                              evolution_progress := Some (rs_progress st),
                              evolution_history := rs_history st \<rparr>
               in (case failure of
                     Some e \<Rightarrow>
                       (Error \<lparr> error = py_error_str e,
                                err_evolution_id = Some evo_id,
                                partial_results = evolution_history ag2 \<rparr>,
                        ag2)
                   | None \<Rightarrow>
                       (Success
                          \<lparr> res_evolution_id = evo_id,
                            final_content = rs_best_content st,
                            final_score = rs_best_score st,
                            iterations_completed = completed_iterations (rs_progress st),
                            improvement_achieved =
                              rs_best_score st
                              - (case score_history (rs_progress st) of [] \<Rightarrow> 0 | h # t \<Rightarrow> h),
                            res_evolution_history = evolution_history ag2 \<rparr>,
                        ag2)))))"

text \<open>The state in which the loop of \<^verbatim>\<open>evolve_content\<close> starts, for a valid input.\<close>

definition start_state :: "py_runtime \<Rightarrow> clock \<Rightarrow> agent \<Rightarrow> input_data \<Rightarrow> run_state" where
  "start_state rt now ag inp =
     \<lparr> rs_best_content = or_else (in_content inp) [],
       rs_best_score = 0.0,
       rs_progress =
         \<lparr> evolution_id = take 12 (md5_hexdigest rt (''evolution_'' @ now 0)),
           total_iterations =
             max_iterations
               (config_update (agent_config ag) (or_else (in_config inp) empty_custom_config)),
           completed_iterations = 0,
           current_best_score = 0.0,
           score_history = [],
           ep_convergence_threshold =
             convergence_threshold
               (config_update (agent_config ag) (or_else (in_config inp) empty_custom_config)),
           plateau_detection = [],
           estimated_completion = [],
           last_updated = now 1 \<rparr>,
       rs_history = evolution_history ag \<rparr>"

text \<open>The loop of \<^verbatim>\<open>evolve_content\<close> on a valid input with target section \<open>ts\<close>.\<close>

definition run_loop ::
  "py_runtime \<Rightarrow> clock \<Rightarrow> (nat \<Rightarrow> iteration_env) \<Rightarrow> agent \<Rightarrow> input_data \<Rightarrow> target_section_value
     \<Rightarrow> py_error option \<times> run_state" where
  "run_loop rt now envs ag inp ts =
     evolve_iterations rt envs (generation_strategies ag)
       (config_update (agent_config ag) (or_else (in_config inp) empty_custom_config))
       (task_tool ag) (take 12 (md5_hexdigest rt (''evolution_'' @ now 0)))
       (or_else (in_research_results inp) []) ts
       (py_range (max_iterations
          (config_update (agent_config ag) (or_else (in_config inp) empty_custom_config))))
       (start_state rt now ag inp)"

text \<open>The two shapes of the returned dict.\<close>

fun success_of :: "evolve_result \<Rightarrow> success_result option" where
  "success_of (Success r) = Some r"
| "success_of (Error r) = None"

fun error_of :: "evolve_result \<Rightarrow> error_result option" where
  "error_of (Success r) = None"
| "error_of (Error r) = Some r"

section \<open>The severity formula of the specification\<close>

text \<open>
  For comparison with the code only: the specification words the severity of a critique
  point as \<open>clamp(round(4 - score), 1, 5)\<close>. \<open>py_round\<close> is Python's \<^verbatim>\<open>round\<close> to an
  integer, which rounds a half to the even neighbour.
\<close>

definition py_round :: "real \<Rightarrow> int" where
  "py_round x =
     (let f = \<lfloor>x\<rfloor>; r = x - of_int f
      in if r < 1 / 2 then f else if 1 / 2 < r then f + 1 else if even f then f else f + 1)"

definition spec_severity :: "real \<Rightarrow> int" where
  "spec_severity score = max 1 (min 5 (py_round (4 - score)))"

section \<open>Example inputs\<close>

text \<open>
  A runtime, clocks and environments with constant answers; an agent whose strategy
  table is empty, so that every generation fails; an input whose target section is a
  plain dict, so that every evaluation fails.
\<close>

definition ex_rt :: py_runtime where
  "ex_rt =
     \<lparr> md5_hexdigest = (\<lambda>s. s),
       format_1f = (\<lambda>x. []),
       format_2f = (\<lambda>x. []),
       str_int = (\<lambda>i. []),
       str_float = (\<lambda>x. []) \<rparr>"

definition ex_clock :: clock where
  "ex_clock = (\<lambda>i. [])"

definition ex_judge :: judge_env where
  "ex_judge = \<lparr> uniform = (\<lambda>d. 0), point_now = (\<lambda>d. []), eval_now = ex_clock \<rparr>"

definition ex_env :: iteration_env where
  "ex_env =
     \<lparr> gen_now = (\<lambda>vt. ex_clock),
       judge = (\<lambda>i. ex_judge),
       iter_now = ex_clock,
       iter_duration = 0 \<rparr>"

definition ex_agent :: agent where
  "ex_agent =
     \<lparr> task_tool = True,
       generation_strategies = (\<lambda>vt. None),
       agent_config = default_config,
       current_evolution = None,
       evolution_progress = None,
       evolution_history = [] \<rparr>"

definition ex_input :: "int \<Rightarrow> input_data" where
  "ex_input n =
     \<lparr> in_content = Some ''ab'',
       in_research_results = None,
       in_target_section = Some PlainDict,
       in_config = Some (empty_custom_config\<lparr>cc_max_iterations := Some n\<rparr>) \<rparr>"

definition ex_input_window :: "int \<Rightarrow> input_data" where
  "ex_input_window w =
     \<lparr> in_content = Some ''ab'',
       in_research_results = None,
       in_target_section = Some PlainDict,
       in_config = Some (empty_custom_config\<lparr>cc_plateau_detection_window := Some w\<rparr>) \<rparr>"

definition ex_section :: target_section_value where
  "ex_section =
     SectionObject
       \<lparr> section_id = ''s1'', title = ''T'', description = [], target_length = 500, priority = 1,
         dependencies = [],
         content_requirements =
           \<lparr> required_elements = [''a''], key_concepts = [], evidence_types = [] \<rparr> \<rparr>"

definition ex_envs :: "nat \<Rightarrow> iteration_env" where
  "ex_envs = (\<lambda>i. ex_env)"

definition ex_failing_strategies :: "VariantType \<Rightarrow> strategy_func option" where
  "ex_failing_strategies = (\<lambda>vt. Some (\<lambda>request. Inl (ValueError ''generation timed out'')))"

definition ex_judges :: "nat \<Rightarrow> judge_env" where
  "ex_judges = (\<lambda>i. ex_judge)"

definition ex_echo_strategies :: "VariantType \<Rightarrow> strategy_func option" where
  "ex_echo_strategies = (\<lambda>vt. Some (\<lambda>request. Inr (req_base_content request, ''unchanged'')))"

definition ex_request :: VariantGenerationRequest where
  "ex_request =
     \<lparr> req_base_content = ''ab'',
       req_research_results = [],
       req_target_section = PlainDict,
       req_variant_type = DEPTH_ENHANCEMENT,
       generation_parameters = [],
       context_information = [] \<rparr>"

definition ex_base :: string where
  "ex_base = ''a'' @ nn @ ''b''"

definition ex_variant :: "string \<Rightarrow> string \<Rightarrow> ContentVariant" where
  "ex_variant vid text =
     \<lparr> variant_id = vid,
       variant_type = PERSPECTIVE_SHIFT,
       content = text,
       generation_strategy = ''fallback'',
       base_content_id = [],
       quality_scores = [],
       improvement_rationale = [],
       generation_timestamp = [],
       tokens_generated = 0 \<rparr>"

section \<open>Facts about the Python values\<close>

lemma fold_max_Max:
  fixes x :: "'a::linorder"
  shows "fold (\<lambda>y best. if best < y then y else best) rest x = Max (set (x # rest))"
proof (induction rest arbitrary: x)
  case Nil
  then show ?case by simp
next
  case (Cons y ys)
  have step: "(if x < y then y else x) = max x y" by (auto simp: max_def)
  have "Max (set (max x y # ys)) = Max (set (x # y # ys))"
    by (cases "ys = []") (simp_all add: max.assoc)
  with Cons.IH [of "max x y"] step show ?case by simp
qed

lemma fold_min_Min:
  fixes x :: "'a::linorder"
  shows "fold (\<lambda>y best. if y < best then y else best) rest x = Min (set (x # rest))"
proof (induction rest arbitrary: x)
  case Nil
  then show ?case by simp
next
  case (Cons y ys)
  have step: "(if y < x then y else x) = min x y" by (auto simp: min_def)
  have "Min (set (min x y # ys)) = Min (set (x # y # ys))"
    by (cases "ys = []") (simp_all add: min.assoc)
  with Cons.IH [of "min x y"] step show ?case by simp
qed

lemma py_max_Max: "xs \<noteq> [] \<Longrightarrow> py_max xs = Inr (Max (set xs))"
  by (cases xs) (simp_all add: py_max_def py_max_by_def fold_max_Max del: set_simps)

lemma py_min_Min: "xs \<noteq> [] \<Longrightarrow> py_min xs = Inr (Min (set xs))"
  by (cases xs) (simp_all add: py_min_def fold_min_Min del: set_simps)

lemma py_split_nonempty: "py_split sep s \<noteq> []"
proof (cases "s = []")
  case True
  then show ?thesis by (subst py_split.simps) simp
next
  case ne: False
  show ?thesis
  proof (cases "sep \<noteq> [] \<and> prefix sep s")
    case True
    with ne show ?thesis by (subst py_split.simps) simp
  next
    case False
    with ne show ?thesis by (subst py_split.simps) (simp split: list.splits)
  qed
qed

lemma py_join_Cons_Cons: "ps \<noteq> [] \<Longrightarrow> py_join sep (p # ps) = p @ sep @ py_join sep ps"
  by (cases ps) simp_all

lemma py_join_push: "py_join sep ((c # p) # ps) = c # py_join sep (p # ps)"
  by (cases ps) simp_all

lemma py_join_split: "py_join sep (py_split sep s) = s"
proof (induction sep s rule: py_split.induct)
  case (1 sep s)
  show ?case
  proof (cases "s = []")
    case True
    then show ?thesis by (subst py_split.simps) simp
  next
    case ne: False
    show ?thesis
    proof (cases "sep \<noteq> [] \<and> prefix sep s")
      case True
      then have s: "s = sep @ drop (length sep) s"
        by (auto simp: prefix_def)
      have "py_join sep (py_split sep s) = py_join sep ([] # py_split sep (drop (length sep) s))"
        using ne True by (subst py_split.simps) simp
      also have "\<dots> = sep @ py_join sep (py_split sep (drop (length sep) s))"
        by (simp add: py_join_Cons_Cons py_split_nonempty)
      also have "\<dots> = sep @ drop (length sep) s"
        using "1.IH"(1) ne True by simp
      finally show ?thesis using s by simp
    next
      case False
      obtain p ps where sp: "py_split sep (tl s) = p # ps"
        using py_split_nonempty [of sep "tl s"] by (cases "py_split sep (tl s)") auto
      have "py_join sep (py_split sep s) = py_join sep ((hd s # p) # ps)"
        using ne False sp by (subst py_split.simps) auto
      also have "\<dots> = hd s # py_join sep (p # ps)" by (rule py_join_push)
      also have "\<dots> = hd s # tl s"
        using "1.IH"(2) [OF ne False] sp by simp
      finally show ?thesis using ne by simp
    qed
  qed
qed

section \<open>Plateau detection\<close>

lemma detect_plateau_window:
  assumes "0 < plateau_detection_window cfg"
  shows "detect_plateau cfg hist =
     Inr (plateau_detection_window cfg + 1 \<le> int (length hist)
          \<and> Max (set (drop (length hist - nat (plateau_detection_window cfg)) hist))
              - Min (set (drop (length hist - nat (plateau_detection_window cfg)) hist))
              < quality_improvement_threshold cfg)"
proof (cases "int (length hist) < plateau_detection_window cfg + 1")
  case True
  then show ?thesis by (simp add: detect_plateau_def Let_def)
next
  case False
  with assms have ne: "slice_last hist (plateau_detection_window cfg) \<noteq> []"
    by (auto simp: slice_last_def)
  from False assms show ?thesis
    using py_max_Max [OF ne] py_min_Min [OF ne]
    by (simp add: detect_plateau_def Let_def slice_last_def)
qed

lemma check_convergence_plateau:
  "check_convergence rt cfg hist s it = Inr (False, plateau_reason)
     \<longleftrightarrow> it < max_iterations cfg \<and> s < convergence_threshold cfg
         \<and> detect_plateau cfg hist = Inr True"
  by (auto simp: check_convergence_def plateau_reason_def split: sum.splits)

lemma evolve_iterations_stop:
  assumes "check_convergence rt cfg
             (score_history (rs_progress
                (iteration_step rt envs strategies cfg tt eid research ts it st)))
             (rs_best_score (iteration_step rt envs strategies cfg tt eid research ts it st))
             (it + 1) = Inr (False, reason)"
  shows "evolve_iterations rt envs strategies cfg tt eid research ts (it # rest) st
           = (None, iteration_step rt envs strategies cfg tt eid research ts it st)"
  using assms by (simp add: Let_def)

text \<open>
  C1, as the code has it. With a positive window, \<^const>\<open>detect_plateau\<close> answers yes
  exactly when the score history has at least one entry more than the window and the
  last window entries differ by less than the threshold. The convergence check gives
  the plateau reason exactly when the iteration limit is not reached, the score is below
  the convergence threshold and a plateau is detected, and the loop then stops after
  that iteration. With the default window 3 and threshold 0.1 the history
  \<open>[3.0, 3.5, 4.0]\<close> is not a plateau.
\<close>

theorem plateau_needs_window_plus_one:
  assumes "0 < plateau_detection_window cfg"
  shows "detect_plateau cfg hist =
           Inr (plateau_detection_window cfg + 1 \<le> int (length hist)
                \<and> Max (set (drop (length hist - nat (plateau_detection_window cfg)) hist))
                    - Min (set (drop (length hist - nat (plateau_detection_window cfg)) hist))
                    < quality_improvement_threshold cfg)
         \<and> (check_convergence rt cfg hist s it = Inr (False, plateau_reason)
              \<longleftrightarrow> it < max_iterations cfg \<and> s < convergence_threshold cfg
                  \<and> detect_plateau cfg hist = Inr True)
         \<and> (check_convergence rt cfg
               (score_history (rs_progress
                  (iteration_step rt envs strategies cfg tt eid research ts it st)))
               (rs_best_score (iteration_step rt envs strategies cfg tt eid research ts it st))
               (it + 1) = Inr (False, plateau_reason)
             \<longrightarrow> evolve_iterations rt envs strategies cfg tt eid research ts (it # rest) st
                   = (None, iteration_step rt envs strategies cfg tt eid research ts it st))
         \<and> detect_plateau default_config [3.0, 3.5, 4.0] = Inr False"
proof (intro conjI impI)
  show "detect_plateau cfg hist =
           Inr (plateau_detection_window cfg + 1 \<le> int (length hist)
                \<and> Max (set (drop (length hist - nat (plateau_detection_window cfg)) hist))
                    - Min (set (drop (length hist - nat (plateau_detection_window cfg)) hist))
                    < quality_improvement_threshold cfg)"
    using assms by (rule detect_plateau_window)
  show "check_convergence rt cfg hist s it = Inr (False, plateau_reason)
           \<longleftrightarrow> it < max_iterations cfg \<and> s < convergence_threshold cfg
               \<and> detect_plateau cfg hist = Inr True"
    by (rule check_convergence_plateau)
  show "detect_plateau default_config [3.0, 3.5, 4.0] = Inr False"
    by (simp add: detect_plateau_def default_config_def)
next
  assume "check_convergence rt cfg
             (score_history (rs_progress
                (iteration_step rt envs strategies cfg tt eid research ts it st)))
             (rs_best_score (iteration_step rt envs strategies cfg tt eid research ts it st))
             (it + 1) = Inr (False, plateau_reason)"
  then show "evolve_iterations rt envs strategies cfg tt eid research ts (it # rest) st
                 = (None, iteration_step rt envs strategies cfg tt eid research ts it st)"
    by (rule evolve_iterations_stop)
qed

text \<open>
  Witness for C1: with the default configuration the history \<open>[2.9, 3.0, 3.05, 3.08]\<close>,
  one entry longer than the window, is a plateau.
\<close>

theorem plateau_needs_window_plus_one_witness:
  "0 < plateau_detection_window default_config
   \<and> detect_plateau default_config [2.9, 3.0, 3.05, 3.08] = Inr True"
proof -
  have pos: "0 < plateau_detection_window default_config"
    by (simp add: default_config_def)
  from plateau_needs_window_plus_one [OF pos, of "[2.9, 3.0, 3.05, 3.08]"]
  have "detect_plateau default_config [2.9, 3.0, 3.05, 3.08] =
          Inr (plateau_detection_window default_config + 1 \<le> int (length [2.9, 3.0, 3.05, 3.08 :: real])
               \<and> Max (set (drop (length [2.9, 3.0, 3.05, 3.08 :: real]
                                    - nat (plateau_detection_window default_config))
                                [2.9, 3.0, 3.05, 3.08 :: real]))
                   - Min (set (drop (length [2.9, 3.0, 3.05, 3.08 :: real]
                                      - nat (plateau_detection_window default_config))
                                [2.9, 3.0, 3.05, 3.08 :: real]))
                   < quality_improvement_threshold default_config)"
    by (rule conjunct1)
  then show ?thesis
    by (simp add: default_config_def)
qed

text \<open>
  Counterexample to C1 as stated: with window 3 and threshold 0.1 the history
  \<open>[3.0, 3.05, 3.08]\<close> has a spread below the threshold, yet no plateau is detected and
  the convergence check lets the loop continue.
\<close>

theorem plateau_three_entries_counterexample:
  "Max (set [3.0, 3.05, 3.08 :: real]) - Min (set [3.0, 3.05, 3.08 :: real])
     < quality_improvement_threshold default_config
   \<and> plateau_detection_window default_config = 3
   \<and> detect_plateau default_config [3.0, 3.05, 3.08] = Inr False
   \<and> check_convergence ex_rt default_config [3.0, 3.05, 3.08] 3.08 3
       = Inr (True, ''Continue evolution'')"
  by (simp add: detect_plateau_def check_convergence_def default_config_def)

section \<open>The evolution loop\<close>

lemma iteration_step_best:
  "rs_best_score (iteration_step rt envs strategies cfg tt eid research ts it st) =
     (if rs_best_score st
           < ir_best_score (fst (execute_evolution_iteration rt (envs (nat (it + 1))) strategies cfg tt
                eid (score_history (rs_progress st)) (it + 1) (rs_best_content st) research ts))
      then ir_best_score (fst (execute_evolution_iteration rt (envs (nat (it + 1))) strategies cfg tt
                eid (score_history (rs_progress st)) (it + 1) (rs_best_content st) research ts))
      else rs_best_score st)"
  by (simp add: iteration_step_def Let_def split: prod.splits)

lemma iteration_step_history:
  "score_history (rs_progress (iteration_step rt envs strategies cfg tt eid research ts it st)) =
     score_history (rs_progress st)
       @ [rs_best_score (iteration_step rt envs strategies cfg tt eid research ts it st)]"
  by (simp add: iteration_step_def Let_def split: prod.splits)

lemma iteration_step_completed:
  "completed_iterations (rs_progress (iteration_step rt envs strategies cfg tt eid research ts it st)) =
     completed_iterations (rs_progress st) + 1"
  by (simp add: iteration_step_def Let_def split: prod.splits)

lemma iteration_step_mono:
  "rs_best_score st \<le> rs_best_score (iteration_step rt envs strategies cfg tt eid research ts it st)"
  by (simp add: iteration_step_best)

lemma iteration_step_sorted:
  assumes "sorted (score_history (rs_progress st) @ [rs_best_score st])"
  shows "sorted (score_history (rs_progress (iteration_step rt envs strategies cfg tt eid research ts it st))
            @ [rs_best_score (iteration_step rt envs strategies cfg tt eid research ts it st)])"
proof -
  let ?st1 = "iteration_step rt envs strategies cfg tt eid research ts it st"
  have le: "rs_best_score st \<le> rs_best_score ?st1" by (rule iteration_step_mono)
  have "\<forall>x\<in>set (score_history (rs_progress st)). x \<le> rs_best_score st"
    using assms by (simp add: sorted_append)
  with le have "\<forall>x\<in>set (score_history (rs_progress st)). x \<le> rs_best_score ?st1"
    by auto
  moreover have "sorted (score_history (rs_progress st))"
    using assms by (simp add: sorted_append)
  ultimately show ?thesis
    by (simp add: iteration_step_history sorted_append)
qed

lemma evolve_iterations_sorted:
  assumes "evolve_iterations rt envs strategies cfg tt eid research ts its st = (failure, st')"
      and "sorted (score_history (rs_progress st) @ [rs_best_score st])"
  shows "sorted (score_history (rs_progress st') @ [rs_best_score st'])
         \<and> rs_best_score st \<le> rs_best_score st'"
  using assms
proof (induction its arbitrary: st)
  case Nil
  then show ?case by simp
next
  case (Cons it rest)
  let ?st1 = "iteration_step rt envs strategies cfg tt eid research ts it st"
  have s1: "sorted (score_history (rs_progress ?st1) @ [rs_best_score ?st1])"
    using Cons.prems(2) by (rule iteration_step_sorted)
  have le: "rs_best_score st \<le> rs_best_score ?st1" by (rule iteration_step_mono)
  show ?case
  proof (cases "check_convergence rt cfg (score_history (rs_progress ?st1)) (rs_best_score ?st1) (it + 1)")
    case (Inl e)
    with Cons.prems(1) have "st' = ?st1" by (simp add: Let_def)
    with s1 le show ?thesis by simp
  next
    case (Inr r)
    obtain should_continue reason where r: "r = (should_continue, reason)" by (cases r)
    show ?thesis
    proof (cases should_continue)
      case True
      with Inr r Cons.prems(1)
      have "evolve_iterations rt envs strategies cfg tt eid research ts rest ?st1 = (failure, st')"
        by (simp add: Let_def)
      from Cons.IH [OF this s1] le show ?thesis by simp
    next
      case False
      with Inr r Cons.prems(1) have "st' = ?st1" by (simp add: Let_def)
      with s1 le show ?thesis by simp
    qed
  qed
qed

lemma evolve_iterations_nonneg:
  assumes "evolve_iterations rt envs strategies cfg tt eid research ts its st = (failure, st')"
      and "0 \<le> rs_best_score st" and "list_all (\<lambda>x. 0 \<le> x) (score_history (rs_progress st))"
  shows "list_all (\<lambda>x. 0 \<le> x) (score_history (rs_progress st'))"
  using assms
proof (induction its arbitrary: st)
  case Nil
  then show ?case by simp
next
  case (Cons it rest)
  let ?st1 = "iteration_step rt envs strategies cfg tt eid research ts it st"
  have le: "0 \<le> rs_best_score ?st1" using iteration_step_mono [of st] Cons.prems(2)
    by (rule_tac order_trans) auto
  have all1: "list_all (\<lambda>x. 0 \<le> x) (score_history (rs_progress ?st1))"
    using Cons.prems(3) le by (simp add: iteration_step_history)
  show ?case
  proof (cases "check_convergence rt cfg (score_history (rs_progress ?st1)) (rs_best_score ?st1) (it + 1)")
    case (Inl e)
    with Cons.prems(1) have "st' = ?st1" by (simp add: Let_def)
    with all1 show ?thesis by simp
  next
    case (Inr r)
    obtain should_continue reason where r: "r = (should_continue, reason)" by (cases r)
    show ?thesis
    proof (cases should_continue)
      case True
      with Inr r Cons.prems(1)
      have "evolve_iterations rt envs strategies cfg tt eid research ts rest ?st1 = (failure, st')"
        by (simp add: Let_def)
      from Cons.IH [OF this le all1] show ?thesis .
    next
      case False
      with Inr r Cons.prems(1) have "st' = ?st1" by (simp add: Let_def)
      with all1 show ?thesis by simp
    qed
  qed
qed

lemma evolve_content_run:
  assumes "or_else (in_content inp) [] \<noteq> []" and "in_target_section inp = Some ts"
      and "evolve_content rt now envs ag inp = (res, ag')"
  obtains failure st where
    "evolve_iterations rt envs (generation_strategies ag)
        (config_update (agent_config ag) (or_else (in_config inp) empty_custom_config))
        (task_tool ag) (take 12 (md5_hexdigest rt (''evolution_'' @ now 0)))
        (or_else (in_research_results inp) []) ts
        (py_range (max_iterations (config_update (agent_config ag) (or_else (in_config inp) empty_custom_config))))
        (start_state rt now ag inp) = (failure, st)"
    and "evolution_progress ag' = Some (rs_progress st)"
    and "evolution_history ag' = rs_history st"
    and "failure = None \<Longrightarrow> \<exists>r. res = Success r \<and> final_score r = rs_best_score st
            \<and> final_content r = rs_best_content st
            \<and> iterations_completed r = completed_iterations (rs_progress st)
            \<and> res_evolution_history r = rs_history st"
    and "\<And>e. failure = Some e \<Longrightarrow> \<exists>r. res = Error r \<and> error r = py_error_str e \<and> partial_results r = rs_history st"
proof -
  obtain failure st where run:
    "evolve_iterations rt envs (generation_strategies ag)
        (config_update (agent_config ag) (or_else (in_config inp) empty_custom_config))
        (task_tool ag) (take 12 (md5_hexdigest rt (''evolution_'' @ now 0)))
        (or_else (in_research_results inp) []) ts
        (py_range (max_iterations (config_update (agent_config ag) (or_else (in_config inp) empty_custom_config))))
        (start_state rt now ag inp) = (failure, st)"
    by (cases "evolve_iterations rt envs (generation_strategies ag)
        (config_update (agent_config ag) (or_else (in_config inp) empty_custom_config))
        (task_tool ag) (take 12 (md5_hexdigest rt (''evolution_'' @ now 0)))
        (or_else (in_research_results inp) []) ts
        (py_range (max_iterations (config_update (agent_config ag) (or_else (in_config inp) empty_custom_config))))
        (start_state rt now ag inp)") 
  show thesis
  proof (rule that [OF run])
    show "evolution_progress ag' = Some (rs_progress st)"
      using assms run by (cases failure) (auto simp: evolve_content_def Let_def start_state_def)
    show "evolution_history ag' = rs_history st"
      using assms run by (cases failure) (auto simp: evolve_content_def Let_def start_state_def)
    show "failure = None \<Longrightarrow> \<exists>r. res = Success r \<and> final_score r = rs_best_score st
            \<and> final_content r = rs_best_content st
            \<and> iterations_completed r = completed_iterations (rs_progress st)
            \<and> res_evolution_history r = rs_history st"
      using assms run by (auto simp: evolve_content_def Let_def start_state_def)
    show "\<And>e. failure = Some e \<Longrightarrow> \<exists>r. res = Error r \<and> error r = py_error_str e \<and> partial_results r = rs_history st"
      using assms run by (auto simp: evolve_content_def Let_def start_state_def)
  qed
qed

lemma evolve_content_invalid:
  assumes "or_else (in_content inp) [] = [] \<or> in_target_section inp = None"
  shows "evolve_content rt now envs ag inp =
     (Error \<lparr> error = ''Missing required input: content or target_section'',
              err_evolution_id = Some (take 12 (md5_hexdigest rt (''evolution_'' @ now 0))),
              partial_results = evolution_history ag \<rparr>,
      ag\<lparr>current_evolution := Some (take 12 (md5_hexdigest rt (''evolution_'' @ now 0)))\<rparr>)"
  using assms by (auto simp: evolve_content_def Let_def)

lemma evolve_content_pair:
  "evolve_content rt now envs ag inp =
     (fst (evolve_content rt now envs ag inp), snd (evolve_content rt now envs ag inp))"
  by simp

text \<open>
  C2: for every run of \<^const>\<open>evolve_content\<close> on a valid input, the score history that
  the run leaves in the progress record is non-decreasing and holds no negative entry.
  In every pass of the loop the best score does not decrease, it changes only when the
  best critique score of the iteration is strictly greater, and the entry appended to
  the score history is the best score after the pass.
\<close>

theorem best_score_ratchet:
  assumes "evolve_content rt now envs ag inp = (res, ag')"
      and "or_else (in_content inp) [] \<noteq> []"
      and "in_target_section inp = Some ts"
  shows "(\<exists>p. evolution_progress ag' = Some p \<and> sorted (score_history p)
              \<and> list_all (\<lambda>x. 0 \<le> x) (score_history p))
         \<and> rs_best_score st
              \<le> rs_best_score (iteration_step rt envs strategies cfg tt eid research ts' it st)
         \<and> rs_best_score (iteration_step rt envs strategies cfg tt eid research ts' it st) =
             (if rs_best_score st
                   < ir_best_score (fst (execute_evolution_iteration rt (envs (nat (it + 1)))
                        strategies cfg tt eid (score_history (rs_progress st)) (it + 1)
                        (rs_best_content st) research ts'))
              then ir_best_score (fst (execute_evolution_iteration rt (envs (nat (it + 1)))
                        strategies cfg tt eid (score_history (rs_progress st)) (it + 1)
                        (rs_best_content st) research ts'))
              else rs_best_score st)
         \<and> score_history (rs_progress
               (iteration_step rt envs strategies cfg tt eid research ts' it st)) =
             score_history (rs_progress st)
               @ [rs_best_score (iteration_step rt envs strategies cfg tt eid research ts' it st)]"
proof -
  from assms(2,3,1) obtain failure fin where
    run: "evolve_iterations rt envs (generation_strategies ag)
        (config_update (agent_config ag) (or_else (in_config inp) empty_custom_config))
        (task_tool ag) (take 12 (md5_hexdigest rt (''evolution_'' @ now 0)))
        (or_else (in_research_results inp) []) ts
        (py_range (max_iterations (config_update (agent_config ag) (or_else (in_config inp) empty_custom_config))))
        (start_state rt now ag inp) = (failure, fin)"
    and prog: "evolution_progress ag' = Some (rs_progress fin)"
    by (rule evolve_content_run)
  have s0: "sorted (score_history (rs_progress (start_state rt now ag inp))
              @ [rs_best_score (start_state rt now ag inp)])"
    by (simp add: start_state_def)
  have "sorted (score_history (rs_progress fin) @ [rs_best_score fin])"
    using evolve_iterations_sorted [OF run s0] by simp
  then have sorted_fin: "sorted (score_history (rs_progress fin))"
    by (simp add: sorted_append)
  have nonneg: "list_all (\<lambda>x. 0 \<le> x) (score_history (rs_progress fin))"
    by (rule evolve_iterations_nonneg [OF run]) (simp_all add: start_state_def)
  from prog sorted_fin nonneg
  have "\<exists>p. evolution_progress ag' = Some p \<and> sorted (score_history p)
              \<and> list_all (\<lambda>x. 0 \<le> x) (score_history p)"
    by simp
  then show ?thesis
    using iteration_step_mono [of st rt envs strategies cfg tt eid research ts' it]
      iteration_step_best [of rt envs strategies cfg tt eid research ts' it st]
      iteration_step_history [of rt envs strategies cfg tt eid research ts' it st]
    by blast
qed

text \<open>
  Witness for C2: the example run of two iterations, in which every generation and
  every evaluation falls back, leaves the score history \<open>[3, 3]\<close>.
\<close>

lemma ex_run_progress:
  "map_option score_history
     (evolution_progress (snd (evolve_content ex_rt ex_clock ex_envs ex_agent (ex_input 2))))
   = Some [3, 3]"
  by code_simp

theorem best_score_ratchet_witness:
  "or_else (in_content (ex_input 2)) [] \<noteq> []
   \<and> in_target_section (ex_input 2) = Some PlainDict
   \<and> map_option score_history
        (evolution_progress (snd (evolve_content ex_rt ex_clock ex_envs ex_agent (ex_input 2))))
      = Some [3, 3]
   \<and> (\<exists>p. evolution_progress (snd (evolve_content ex_rt ex_clock ex_envs ex_agent (ex_input 2)))
              = Some p
            \<and> sorted (score_history p) \<and> list_all (\<lambda>x. 0 \<le> x) (score_history p))"
proof -
  have a: "or_else (in_content (ex_input 2)) [] \<noteq> []"
    by (simp add: ex_input_def or_else_def)
  have b: "in_target_section (ex_input 2) = Some PlainDict"
    by (simp add: ex_input_def)
  from best_score_ratchet [OF evolve_content_pair a b] ex_run_progress a b
  show ?thesis by blast
qed

section \<open>Iteration count\<close>

lemma evolve_iterations_count:
  assumes "evolve_iterations rt envs strategies cfg tt eid research ts its st = (failure, st')"
  shows "completed_iterations (rs_progress st')
           \<le> completed_iterations (rs_progress st) + int (length its)
         \<and> (if its = [] then completed_iterations (rs_progress st') = completed_iterations (rs_progress st)
             else completed_iterations (rs_progress st) + 1 \<le> completed_iterations (rs_progress st'))"
  using assms
proof (induction its arbitrary: st)
  case Nil
  then show ?case by simp
next
  case (Cons it rest)
  let ?st1 = "iteration_step rt envs strategies cfg tt eid research ts it st"
  have c1: "completed_iterations (rs_progress ?st1) = completed_iterations (rs_progress st) + 1"
    by (rule iteration_step_completed)
  show ?case
  proof (cases "check_convergence rt cfg (score_history (rs_progress ?st1)) (rs_best_score ?st1) (it + 1)")
    case (Inl e)
    with Cons.prems have "st' = ?st1" by (simp add: Let_def)
    with c1 show ?thesis by simp
  next
    case (Inr r)
    obtain should_continue reason where r: "r = (should_continue, reason)" by (cases r)
    show ?thesis
    proof (cases should_continue)
      case True
      with Inr r Cons.prems
      have "evolve_iterations rt envs strategies cfg tt eid research ts rest ?st1 = (failure, st')"
        by (simp add: Let_def)
      from Cons.IH [OF this] c1 show ?thesis by (auto split: if_splits)
    next
      case False
      with Inr r Cons.prems have "st' = ?st1" by (simp add: Let_def)
      with c1 show ?thesis by simp
    qed
  qed
qed

lemma evolve_content_success_valid:
  assumes "evolve_content rt now envs ag inp = (Success r, ag')"
  shows "or_else (in_content inp) [] \<noteq> [] \<and> (\<exists>ts. in_target_section inp = Some ts)"
proof (rule ccontr)
  assume "\<not> ?thesis"
  then have "or_else (in_content inp) [] = [] \<or> in_target_section inp = None" by auto
  from evolve_content_invalid [OF this, of rt now envs ag] assms show False by simp
qed

text \<open>
  C6, as the code has it: a successful run reports between 0 and
  \<open>max(0, max_iterations)\<close> completed iterations; at least one when the configured
  limit is at least 1, and none when the limit is 0 or negative, in which case the
  loop body never runs and the run still succeeds.
\<close>

theorem iterations_completed_bounds:
  assumes "evolve_content rt now envs ag inp = (Success r, ag')"
  shows "0 \<le> iterations_completed r
         \<and> iterations_completed r
             \<le> max 0 (max_iterations
                  (config_update (agent_config ag) (or_else (in_config inp) empty_custom_config)))
         \<and> (if 1 \<le> max_iterations
                  (config_update (agent_config ag) (or_else (in_config inp) empty_custom_config))
             then 1 \<le> iterations_completed r
             else iterations_completed r = 0)"
proof -
  let ?cfg = "config_update (agent_config ag) (or_else (in_config inp) empty_custom_config)"
  from evolve_content_success_valid [OF assms] obtain ts where
    v: "or_else (in_content inp) [] \<noteq> []" "in_target_section inp = Some ts" by auto
  from v assms obtain failure fin where
    run: "evolve_iterations rt envs (generation_strategies ag) ?cfg
        (task_tool ag) (take 12 (md5_hexdigest rt (''evolution_'' @ now 0)))
        (or_else (in_research_results inp) []) ts
        (py_range (max_iterations ?cfg))
        (start_state rt now ag inp) = (failure, fin)"
    and "evolution_progress ag' = Some (rs_progress fin)"
    and "evolution_history ag' = rs_history fin"
    and ok: "failure = None \<Longrightarrow> \<exists>r'. Success r = Success r' \<and> final_score r' = rs_best_score fin
            \<and> final_content r' = rs_best_content fin
            \<and> iterations_completed r' = completed_iterations (rs_progress fin)
            \<and> res_evolution_history r' = rs_history fin"
    and bad: "\<And>e. failure = Some e \<Longrightarrow> \<exists>r'. Success r = Error r' \<and> error r' = py_error_str e \<and> partial_results r' = rs_history fin"
    by (rule evolve_content_run) blast
  have "failure = None" using bad by (cases failure) auto
  with ok have ic: "iterations_completed r = completed_iterations (rs_progress fin)" by auto
  have c0: "completed_iterations (rs_progress (start_state rt now ag inp)) = 0"
    by (simp add: start_state_def)
  have len: "int (length (py_range (max_iterations ?cfg))) = max 0 (max_iterations ?cfg)"
    by (simp add: py_range_def)
  have ne: "py_range (max_iterations ?cfg) = [] \<longleftrightarrow> \<not> 1 \<le> max_iterations ?cfg"
    by (auto simp: py_range_def)
  from evolve_iterations_count [OF run] c0 len ne ic show ?thesis
    by (auto split: if_splits)
qed

text \<open>Witness for C6: the example run with limit 2 succeeds after 2 iterations.\<close>

lemma ex_run_success_1:
  "map_option iterations_completed
     (success_of (fst (evolve_content ex_rt ex_clock ex_envs ex_agent (ex_input 2)))) = Some 2"
  by code_simp

theorem iterations_completed_bounds_witness:
  "map_option iterations_completed
      (success_of (fst (evolve_content ex_rt ex_clock ex_envs ex_agent (ex_input 2)))) = Some 2
   \<and> max_iterations (config_update (agent_config ex_agent)
         (or_else (in_config (ex_input 2)) empty_custom_config)) = 2
   \<and> (\<exists>r. fst (evolve_content ex_rt ex_clock ex_envs ex_agent (ex_input 2)) = Success r
          \<and> 1 \<le> iterations_completed r \<and> iterations_completed r \<le> 2)"
proof -
  obtain r where r: "fst (evolve_content ex_rt ex_clock ex_envs ex_agent (ex_input 2)) = Success r"
    using ex_run_success_1
    by (cases "fst (evolve_content ex_rt ex_clock ex_envs ex_agent (ex_input 2))") auto
  then have run: "evolve_content ex_rt ex_clock ex_envs ex_agent (ex_input 2)
                   = (Success r, snd (evolve_content ex_rt ex_clock ex_envs ex_agent (ex_input 2)))"
    by (metis prod.collapse)
  have m: "max_iterations (config_update (agent_config ex_agent)
         (or_else (in_config (ex_input 2)) empty_custom_config)) = 2"
    by (simp add: config_update_def ex_input_def or_else_def empty_custom_config_def)
  from iterations_completed_bounds [OF run] m r ex_run_success_1 show ?thesis
    by auto
qed

text \<open>
  Counterexample to C6 as stated: with \<open>max_iterations = 0\<close> in the input
  configuration the run succeeds and reports 0 completed iterations.
\<close>

theorem zero_iterations_counterexample:
  "status (fst (evolve_content ex_rt ex_clock ex_envs ex_agent (ex_input 0))) = ''success''
   \<and> map_option iterations_completed
       (success_of (fst (evolve_content ex_rt ex_clock ex_envs ex_agent (ex_input 0)))) = Some 0
   \<and> max_iterations (agent_config (snd (evolve_content ex_rt ex_clock ex_envs ex_agent (ex_input 0)))) = 0"
  by code_simp

section \<open>Weights and score bounds\<close>

lemma weights_sum: "sum_list (map (\<lambda>(d, w, descr). w) evaluation_criteria) = 1"
  by (simp add: evaluation_criteria_def)

lemma calculate_dimension_score_range:
  "calculate_dimension_score u c d ts ev = Inr s \<Longrightarrow> 1 \<le> s \<and> s \<le> 5"
  by (auto simp: calculate_dimension_score_def split: sum.splits)

lemma update_values:
  "list_all (\<lambda>(k, s). P s) al \<Longrightarrow> P v \<Longrightarrow> list_all (\<lambda>(k, s). P s) (AList.update k v al)"
  by (induction al) auto

lemma evaluate_dimensions_range:
  assumes "evaluate_dimensions rt je c ts ev crit (scores, points) = Inr (scores', points')"
      and "list_all (\<lambda>(k, s). 1 \<le> s \<and> s \<le> 5) scores"
  shows "list_all (\<lambda>(k, s). 1 \<le> s \<and> s \<le> 5) scores'"
  using assms
proof (induction crit arbitrary: scores points)
  case Nil
  then show ?case by simp
next
  case (Cons a crit)
  obtain d w descr where a: "a = (d, w, descr)" by (cases a)
  from Cons.prems(1) a obtain score new_points where
    ed: "evaluate_dimension rt je c d descr ts ev = Inr (score, new_points)"
    and rest: "evaluate_dimensions rt je c ts ev crit
                 (AList.update (dimension_value d) score scores, points @ new_points)
               = Inr (scores', points')"
    by (auto split: sum.splits)
  from ed have "1 \<le> score \<and> score \<le> 5"
    by (auto simp: evaluate_dimension_def split: sum.splits dest: calculate_dimension_score_range)
  with Cons.prems(2)
  have "list_all (\<lambda>(k, s). 1 \<le> s \<and> s \<le> 5) (AList.update (dimension_value d) score scores)"
    by (intro update_values) auto
  from Cons.IH [OF rest this] show ?case .
qed

lemma weighted_sum_bounds:
  assumes "weighted_sum scores crit acc = Inr t"
      and "list_all (\<lambda>(k, s). 1 \<le> s \<and> s \<le> 5) scores"
      and "list_all (\<lambda>(d, w, descr). 0 \<le> w) crit"
  shows "acc + sum_list (map (\<lambda>(d, w, descr). w) crit) \<le> t
         \<and> t \<le> acc + 5 * sum_list (map (\<lambda>(d, w, descr). w) crit)"
  using assms
proof (induction crit arbitrary: acc)
  case Nil
  then show ?case by simp
next
  case (Cons a crit)
  obtain d w descr where a: "a = (d, w, descr)" by (cases a)
  from Cons.prems(1) a obtain score where
    look: "map_of scores (dimension_value d) = Some score"
    and rest: "weighted_sum scores crit (acc + score * w) = Inr t"
    by (auto split: option.splits)
  from look have "(dimension_value d, score) \<in> set scores" by (rule map_of_SomeD)
  with Cons.prems(2) have r: "1 \<le> score" "score \<le> 5"
    by (auto simp: list_all_iff)
  from Cons.prems(3) a have w: "0 \<le> w" and ws: "list_all (\<lambda>(d, w, descr). 0 \<le> w) crit"
    by auto
  from r w have "1 * w \<le> score * w" by (intro mult_right_mono)
  then have lo: "w \<le> score * w" by simp
  from r w have hi: "score * w \<le> 5 * w" by (intro mult_right_mono)
  from Cons.IH [OF rest Cons.prems(2) ws] lo hi a show ?case
    by (simp add: algebra_simps)
qed

lemma criteria_weights_nonneg: "list_all (\<lambda>(d, w, descr). 0 \<le> w) evaluation_criteria"
  by (simp add: evaluation_criteria_def)

lemma try_evaluate_variant_range:
  assumes "try_evaluate_variant rt je v ts ev = Inr c"
  shows "list_all (\<lambda>(k, s). 1 \<le> s \<and> s \<le> 5) (dimension_scores c)
         \<and> weighted_sum (dimension_scores c) evaluation_criteria 0 = Inr (overall_score c)
         \<and> 1 \<le> overall_score c \<and> overall_score c \<le> 5"
proof -
  from assms obtain scores points overall where
    ed: "evaluate_dimensions rt je (content v) ts ev evaluation_criteria ([], []) = Inr (scores, points)"
    and ws: "weighted_sum scores evaluation_criteria 0 = Inr overall"
    and c: "dimension_scores c = scores" "overall_score c = overall"
    by (auto simp: try_evaluate_variant_def split: sum.splits)
  have r: "list_all (\<lambda>(k, s). 1 \<le> s \<and> s \<le> 5) scores"
    by (rule evaluate_dimensions_range [OF ed]) simp
  from weighted_sum_bounds [OF ws r criteria_weights_nonneg] weights_sum c r ws
  show ?thesis by simp
qed

lemma fallback_critique_range:
  "list_all (\<lambda>(k, s). 1 \<le> s \<and> s \<le> 5) (dimension_scores (create_fallback_critique rt stamp v))
   \<and> overall_score (create_fallback_critique rt stamp v) = 3"
  by (simp add: create_fallback_critique_def all_dimensions_def)

text \<open>
  C5: the eight weights sum to 1; every score that \<^const>\<open>calculate_dimension_score\<close>
  returns lies between 1 and 5; the overall score of a completed evaluation is the
  weighted sum of its dimension scores; and the critique that \<^const>\<open>evaluate_variant\<close>
  returns, computed or fallback, has all its dimension scores and its overall score
  between 1 and 5.
\<close>

theorem quality_weights_and_score_bounds:
  "sum_list (map (\<lambda>(d, w, descr). w) evaluation_criteria) = 1
   \<and> (calculate_dimension_score u c d ts ev = Inr s \<longrightarrow> 1 \<le> s \<and> s \<le> 5)
   \<and> (try_evaluate_variant rt je v ts ev = Inr crit
        \<longrightarrow> weighted_sum (dimension_scores crit) evaluation_criteria 0 = Inr (overall_score crit))
   \<and> list_all (\<lambda>(k, s). 1 \<le> s \<and> s \<le> 5) (dimension_scores (evaluate_variant rt je v ts ev))
   \<and> 1 \<le> overall_score (evaluate_variant rt je v ts ev)
   \<and> overall_score (evaluate_variant rt je v ts ev) \<le> 5"
proof -
  have ev: "list_all (\<lambda>(k, s). 1 \<le> s \<and> s \<le> 5) (dimension_scores (evaluate_variant rt je v ts ev))
            \<and> 1 \<le> overall_score (evaluate_variant rt je v ts ev)
            \<and> overall_score (evaluate_variant rt je v ts ev) \<le> 5"
  proof (cases "try_evaluate_variant rt je v ts ev")
    case (Inl e)
    then have "evaluate_variant rt je v ts ev = create_fallback_critique rt (eval_now je 1) v"
      by (simp add: evaluate_variant_def)
    with fallback_critique_range [of rt "eval_now je 1" v] show ?thesis by simp
  next
    case (Inr c)
    then have "evaluate_variant rt je v ts ev = c" by (simp add: evaluate_variant_def)
    with try_evaluate_variant_range [OF Inr] show ?thesis by simp
  qed
  from ev weights_sum calculate_dimension_score_range [of u c d ts ev s]
    try_evaluate_variant_range [of rt je v ts ev crit]
  show ?thesis by blast
qed

text \<open>
  The example variant against the example section: completeness is 5, evidence quality
  is 1 and gives one critique point of severity 3, the overall score is 3.
\<close>

lemma ex_evaluation:
  "map_option (\<lambda>c. (overall_score c, dimension_scores c, map severity (critique_points c)))
      (case try_evaluate_variant ex_rt ex_judge (ex_variant ''v1'' ''ab'') ex_section [] of
         Inl e \<Rightarrow> None | Inr c \<Rightarrow> Some c)
   = Some (3, [(''accuracy'', 3), (''completeness'', 5), (''coherence'', 3), (''originality'', 3),
               (''evidence_quality'', 1), (''logical_flow'', 3), (''critical_thinking'', 3),
               (''synthesis_quality'', 3)], [3])"
  by code_simp

lemma ex_dimension_score:
  "calculate_dimension_score 0 ''ab'' COMPLETENESS ex_section [] = Inr 5"
  by code_simp

text \<open>Witness for C5: the evaluation of the example variant.\<close>

theorem quality_weights_and_score_bounds_witness:
  "calculate_dimension_score 0 ''ab'' COMPLETENESS ex_section [] = Inr 5
   \<and> (\<exists>crit. try_evaluate_variant ex_rt ex_judge (ex_variant ''v1'' ''ab'') ex_section [] = Inr crit
          \<and> weighted_sum (dimension_scores crit) evaluation_criteria 0 = Inr (overall_score crit)
          \<and> overall_score crit = 3)
   \<and> 1 \<le> overall_score (evaluate_variant ex_rt ex_judge (ex_variant ''v1'' ''ab'') ex_section [])
   \<and> overall_score (evaluate_variant ex_rt ex_judge (ex_variant ''v1'' ''ab'') ex_section []) \<le> 5"
proof -
  obtain crit where c: "try_evaluate_variant ex_rt ex_judge (ex_variant ''v1'' ''ab'') ex_section [] = Inr crit"
    and o: "overall_score crit = 3"
    using ex_evaluation
    by (cases "try_evaluate_variant ex_rt ex_judge (ex_variant ''v1'' ''ab'') ex_section []") auto
  from quality_weights_and_score_bounds
         [of 0 "''ab''" COMPLETENESS ex_section "[]" 5 ex_rt ex_judge "ex_variant ''v1'' ''ab''" crit]
    ex_dimension_score c o
  show ?thesis by simp
qed

section \<open>Judge failure and critique points\<close>

text \<open>
  C3, as the code has it: when the body of \<^const>\<open>evaluate_variant\<close> raises, the function
  returns the fallback critique for the variant: overall score 3.0, every one of the
  eight dimensions at 3.0, no critique point, and one generic improvement priority, one
  generic strength and one generic recommendation. No exception leaves the function.
\<close>

theorem judge_failure_fallback:
  assumes "try_evaluate_variant rt je v ts ev = Inl e"
  shows "evaluate_variant rt je v ts ev = create_fallback_critique rt (eval_now je 1) v
         \<and> target_variant_id (evaluate_variant rt je v ts ev) = variant_id v
         \<and> overall_score (evaluate_variant rt je v ts ev) = 3.0
         \<and> dimension_scores (evaluate_variant rt je v ts ev)
             = map (\<lambda>d. (dimension_value d, 3.0)) all_dimensions
         \<and> critique_points (evaluate_variant rt je v ts ev) = []
         \<and> improvement_priorities (evaluate_variant rt je v ts ev) = [''General improvement needed'']
         \<and> strengths_identified (evaluate_variant rt je v ts ev) = [''Content generated successfully'']
         \<and> revision_recommendations (evaluate_variant rt je v ts ev) = [''Review and refine content'']"
  using assms by (simp add: evaluate_variant_def create_fallback_critique_def)

text \<open>An evaluation against a plain dict raises in the completeness dimension.\<close>

lemma plain_dict_fails:
  "try_evaluate_variant rt je v PlainDict ev = Inl (AttributeError ''content_requirements'')"
  by (simp add: try_evaluate_variant_def evaluation_criteria_def evaluate_dimension_def
        calculate_dimension_score_def base_dimension_score_def get_content_requirements_def
        generate_dimension_critique_points_def)

text \<open>Witness for C3: the example variant judged against a plain dict.\<close>

theorem judge_failure_fallback_witness:
  "try_evaluate_variant ex_rt ex_judge (ex_variant ''v1'' ''ab'') PlainDict []
     = Inl (AttributeError ''content_requirements'')
   \<and> overall_score (evaluate_variant ex_rt ex_judge (ex_variant ''v1'' ''ab'') PlainDict []) = 3
   \<and> dimension_scores (evaluate_variant ex_rt ex_judge (ex_variant ''v1'' ''ab'') PlainDict [])
       = [(''accuracy'', 3), (''completeness'', 3), (''coherence'', 3), (''originality'', 3),
          (''evidence_quality'', 3), (''logical_flow'', 3), (''critical_thinking'', 3),
          (''synthesis_quality'', 3)]
   \<and> critique_points (evaluate_variant ex_rt ex_judge (ex_variant ''v1'' ''ab'') PlainDict []) = []"
  using judge_failure_fallback [OF plain_dict_fails, of ex_rt ex_judge "ex_variant ''v1'' ''ab''" "[]"]
    plain_dict_fails [of ex_rt ex_judge "ex_variant ''v1'' ''ab''" "[]"]
  by (simp add: all_dimensions_def create_fallback_critique_def)

text \<open>
  Counterexample to C3 as stated: the evaluation of the example variant against a plain
  dict fails, and the critique returned holds no critique point, not one.
\<close>

theorem fallback_has_no_critique_point_counterexample:
  "isl (try_evaluate_variant ex_rt ex_judge (ex_variant ''v1'' ''ab'') PlainDict [])
   \<and> length (critique_points (evaluate_variant ex_rt ex_judge (ex_variant ''v1'' ''ab'') PlainDict [])) = 0
   \<and> length (critique_points (evaluate_variant ex_rt ex_judge (ex_variant ''v1'' ''ab'') PlainDict [])) \<noteq> 1"
  by code_simp

lemma py_int_floor: "0 \<le> x \<Longrightarrow> py_int x = \<lfloor>x\<rfloor>"
  by (simp add: py_int_def)

text \<open>
  C4, as the code has it: a score below 3.0 gives exactly one critique point, for the
  dimension evaluated, whose severity is \<open>4 - score\<close> truncated towards zero and whose
  priority level equals the severity; for a score from 1 on, the severity is the floor
  of \<open>4 - score\<close>, lies between 1 and 3, and is the value of the specification's formula
  or one less. A score of 3.0 or more gives no critique point. The points that
  \<^const>\<open>evaluate_dimension\<close> returns are those of its score, which lies between 1 and 5.
\<close>

theorem critique_point_severity:
  "(score < 3 \<longrightarrow>
      (\<exists>p. generate_dimension_critique_points rt stamp d score descr = [p]
           \<and> dimension p = d
           \<and> severity p = py_int (4 - score)
           \<and> priority_level p = severity p
           \<and> (1 \<le> score \<longrightarrow> severity p = \<lfloor>4 - score\<rfloor> \<and> 1 \<le> severity p \<and> severity p \<le> 3
                 \<and> severity p \<le> spec_severity score \<and> spec_severity score \<le> severity p + 1)))
   \<and> (3 \<le> score \<longrightarrow> generate_dimension_critique_points rt stamp d score descr = [])
   \<and> (evaluate_dimension rt je c d descr ts ev = Inr (score, points) \<longrightarrow>
        points = generate_dimension_critique_points rt (point_now je d) d score descr
        \<and> 1 \<le> score \<and> score \<le> 5)"
proof (intro conjI impI)
  assume lt: "score < 3"
  let ?p = "\<lparr> cp_critique_id = take 8 (md5_hexdigest rt (dimension_value d @ ''_'' @ stamp)),
           dimension = d,
           severity = py_int (4 - score),
           issue_description = ''Score '' @ format_1f rt score @ ''/5.0 for '' @ descr,
           suggested_improvement = get_improvement_suggestion d,
           evidence_required = get_evidence_requirements d,
           priority_level = py_int (4 - score) \<rparr>"
  have g: "generate_dimension_critique_points rt stamp d score descr = [?p]"
    using lt by (simp add: generate_dimension_critique_points_def)
  have range: "1 \<le> score \<longrightarrow> severity ?p = \<lfloor>4 - score\<rfloor> \<and> 1 \<le> severity ?p \<and> severity ?p \<le> 3
                 \<and> severity ?p \<le> spec_severity score \<and> spec_severity score \<le> severity ?p + 1"
  proof
    assume ge: "1 \<le> score"
    with lt have pos: "0 \<le> 4 - score" by simp
    have fl: "py_int (4 - score) = \<lfloor>4 - score\<rfloor>" using pos by (rule py_int_floor)
    have lo: "1 \<le> \<lfloor>4 - score\<rfloor>" using lt by (simp add: le_floor_iff)
    have hi: "\<lfloor>4 - score\<rfloor> \<le> 3" using ge by (simp add: floor_le_iff)
    have rnd: "\<lfloor>4 - score\<rfloor> \<le> py_round (4 - score) \<and> py_round (4 - score) \<le> \<lfloor>4 - score\<rfloor> + 1"
      by (simp add: py_round_def Let_def)
    have sev: "severity ?p = \<lfloor>4 - score\<rfloor>" using fl by simp
    show "severity ?p = \<lfloor>4 - score\<rfloor> \<and> 1 \<le> severity ?p \<and> severity ?p \<le> 3
                 \<and> severity ?p \<le> spec_severity score \<and> spec_severity score \<le> severity ?p + 1"
      unfolding sev spec_severity_def using lo hi rnd by linarith
  qed
  from g range show "\<exists>p. generate_dimension_critique_points rt stamp d score descr = [p]
           \<and> dimension p = d
           \<and> severity p = py_int (4 - score)
           \<and> priority_level p = severity p
           \<and> (1 \<le> score \<longrightarrow> severity p = \<lfloor>4 - score\<rfloor> \<and> 1 \<le> severity p \<and> severity p \<le> 3
                 \<and> severity p \<le> spec_severity score \<and> spec_severity score \<le> severity p + 1)"
  proof (intro exI conjI)
    show "generate_dimension_critique_points rt stamp d score descr = [?p]" by (rule g)
    show "dimension ?p = d" by simp
    show "severity ?p = py_int (4 - score)" by simp
    show "priority_level ?p = severity ?p" by simp
    show "1 \<le> score \<longrightarrow> severity ?p = \<lfloor>4 - score\<rfloor> \<and> 1 \<le> severity ?p \<and> severity ?p \<le> 3
                 \<and> severity ?p \<le> spec_severity score \<and> spec_severity score \<le> severity ?p + 1"
      by (rule range)
  qed
next
  assume "3 \<le> score"
  then show "generate_dimension_critique_points rt stamp d score descr = []"
    by (simp add: generate_dimension_critique_points_def)
next
  assume e: "evaluate_dimension rt je c d descr ts ev = Inr (score, points)"
  then show "points = generate_dimension_critique_points rt (point_now je d) d score descr"
    by (auto simp: evaluate_dimension_def split: sum.splits)
  from e show "1 \<le> score" "score \<le> 5"
    by (auto simp: evaluate_dimension_def split: sum.splits dest: calculate_dimension_score_range)
qed

text \<open>Critique points at the scores 1 and 3, and for the example evaluation.\<close>

lemma ex_points:
  "map (\<lambda>p. (dimension p, severity p, priority_level p))
      (generate_dimension_critique_points ex_rt [] EVIDENCE_QUALITY 1 []) = [(EVIDENCE_QUALITY, 3, 3)]
   \<and> generate_dimension_critique_points ex_rt [] ACCURACY 3 [] = []
   \<and> map_option (\<lambda>(s, ps). (s, map severity ps))
        (case evaluate_dimension ex_rt ex_judge ''ab'' EVIDENCE_QUALITY [] ex_section [] of
           Inl e \<Rightarrow> None | Inr r \<Rightarrow> Some r) = Some (1, [3])"
  by code_simp

text \<open>Witness for C4: the score 1 gives one point of severity 3, the score 3 none.\<close>

theorem critique_point_severity_witness:
  "(1::real) < 3 \<and> (3::real) \<le> 3
   \<and> map (\<lambda>p. (dimension p, severity p, priority_level p))
        (generate_dimension_critique_points ex_rt [] EVIDENCE_QUALITY 1 []) = [(EVIDENCE_QUALITY, 3, 3)]
   \<and> generate_dimension_critique_points ex_rt [] ACCURACY 3 [] = []
   \<and> (\<exists>p. generate_dimension_critique_points ex_rt [] EVIDENCE_QUALITY 1 [] = [p]
          \<and> severity p = 3 \<and> priority_level p = severity p)"
proof -
  have "(1::real) < 3" by simp
  with critique_point_severity [of 1 ex_rt "[]" EVIDENCE_QUALITY "[]", THEN conjunct1]
  have "\<exists>p. generate_dimension_critique_points ex_rt [] EVIDENCE_QUALITY 1 [] = [p]
          \<and> severity p = py_int (4 - 1) \<and> priority_level p = severity p"
    by blast
  moreover have "py_int (4 - 1) = 3" by (simp add: py_int_def)
  ultimately show ?thesis using ex_points by auto
qed

text \<open>
  Counterexample to C4 as stated: at the score 2.25 the code gives severity 1, while
  \<open>clamp(round(4 - 2.25), 1, 5)\<close> is 2.
\<close>

theorem severity_truncates_counterexample:
  "map severity (generate_dimension_critique_points ex_rt [] ACCURACY 2.25 []) = [1]
   \<and> spec_severity 2.25 = 2"
  by (simp add: generate_dimension_critique_points_def py_int_def spec_severity_def py_round_def)

section \<open>Merging\<close>

text \<open>
  C7: for every list of critiques and every strategy name, \<^const>\<open>merge_variants\<close> gives
  the empty string for no variant and the content of the variant, unchanged, for one.
\<close>

theorem merge_base_cases:
  "merge_variants [] cs merge_strategy = [] \<and> merge_variants [v] cs merge_strategy = content v"
  by (simp add: merge_variants_def try_merge_variants_def)

text \<open>Merging variants that all have the same content.\<close>

lemma fold_max_by_mem:
  "fold (\<lambda>y best. if key best < key y then y else best) rest x \<in> set (x # rest)"
proof (induction rest arbitrary: x)
  case Nil
  then show ?case by simp
next
  case (Cons y ys)
  from Cons.IH [of "if key x < key y then y else x"] show ?case
    by (auto split: if_splits)
qed

lemma py_max_by_mem: "xs \<noteq> [] \<Longrightarrow> \<exists>x \<in> set xs. py_max_by key xs = Inr x"
  using fold_max_by_mem [of key "tl xs" "hd xs"]
  by (cases xs) (auto simp: py_max_by_def)

lemma update_nonempty: "AList.update k v al \<noteq> []"
  by (cases al) auto

lemma fold_update_values:
  assumes "list_all (\<lambda>(k, x). x = S) acc" and "list_all (\<lambda>v. f v = S) vs"
  shows "list_all (\<lambda>(k, x). x = S) (fold (\<lambda>v m. AList.update (g v) (f v) m) vs acc)"
  using assms
proof (induction vs arbitrary: acc)
  case Nil
  then show ?case by simp
next
  case (Cons v vs)
  from Cons.prems have "list_all (\<lambda>(k, x). x = S) (AList.update (g v) (f v) acc)"
    by (intro update_values) auto
  with Cons show ?case by simp
qed

lemma fold_update_nonempty:
  "vs \<noteq> [] \<or> acc \<noteq> [] \<Longrightarrow> fold (\<lambda>v m. AList.update (g v) (f v) m) vs acc \<noteq> []"
proof (induction vs arbitrary: acc)
  case Nil
  then show ?case by simp
next
  case (Cons v vs)
  show ?case using Cons.IH [of "AList.update (g v) (f v) acc"] by (simp add: update_nonempty)
qed

lemma variant_sections_same:
  assumes "list_all (\<lambda>v. content v = b) variants"
  shows "list_all (\<lambda>(k, x). x = py_split nn b) (variant_sections_of variants)"
  unfolding variant_sections_of_def
  by (rule fold_update_values) (use assms in \<open>auto simp: list_all_iff\<close>)

lemma variant_sections_nonempty: "variants \<noteq> [] \<Longrightarrow> variant_sections_of variants \<noteq> []"
  unfolding variant_sections_of_def by (rule fold_update_nonempty) simp

lemma best_section_at_same:
  assumes "list_all (\<lambda>(k, x). x = S) vsec" and "vsec \<noteq> []" and "idx < length S"
  shows "best_section_at cm vsec idx = [S ! idx]"
proof -
  have keep: "filter (\<lambda>(vid, sections). idx < length sections) vsec = vsec"
    using assms(1,3) by (auto simp: list_all_iff intro!: filter_True)
  let ?cands = "map (\<lambda>(vid, sections). (sections ! idx, score_or 3.0 cm vid, vid)) vsec"
  have ne: "?cands \<noteq> []" using assms(2) by simp
  have all: "\<forall>x \<in> set ?cands. fst x = S ! idx"
    using assms(1) by (auto simp: list_all_iff)
  from py_max_by_mem [OF ne, of "\<lambda>(c, q, vid). q"] obtain x where
    x: "x \<in> set ?cands" "py_max_by (\<lambda>(c, q, vid). q) ?cands = Inr x" by blast
  with all have "fst x = S ! idx" by blast
  then obtain q vid where "x = (S ! idx, q, vid)" by (cases x) auto
  with x(2) keep show ?thesis
    by (simp add: best_section_at_def Let_def)
qed

lemma max_sections_same:
  assumes "list_all (\<lambda>(k, x). x = S) vsec" and "vsec \<noteq> []"
  shows "py_max (map (\<lambda>(vid, sections). length sections) vsec) = Inr (length S)"
proof -
  let ?ls = "map (\<lambda>(vid, sections). length sections) vsec"
  have ne: "?ls \<noteq> []" using assms(2) by simp
  have "set ?ls = {length S}"
    using assms by (cases vsec) (auto simp: list_all_iff)
  with py_max_Max [OF ne] show ?thesis by simp
qed

lemma concat_singletons: "concat (map (\<lambda>i. [f i]) xs) = map f xs"
  by (induction xs) simp_all

lemma merge_best_sections_same:
  assumes "variants \<noteq> []" and "list_all (\<lambda>v. content v = b) variants"
  shows "merge_best_sections variants cs = Inr b"
proof -
  let ?S = "py_split nn b"
  let ?vsec = "variant_sections_of variants"
  have same: "list_all (\<lambda>(k, x). x = ?S) ?vsec"
    using assms(2) by (rule variant_sections_same)
  have ne: "?vsec \<noteq> []" using assms(1) by (rule variant_sections_nonempty)
  have mx: "py_max (map (\<lambda>(vid, sections). length sections) ?vsec) = Inr (length ?S)"
    using same ne by (rule max_sections_same)
  have eq: "map (best_section_at (critique_map_of cs) ?vsec) [0 ..< length ?S]
          = map (\<lambda>i. [?S ! i]) [0 ..< length ?S]"
    using best_section_at_same [OF same ne] by simp
  have "concat (map (\<lambda>i. [?S ! i]) [0 ..< length ?S]) = map (\<lambda>i. ?S ! i) [0 ..< length ?S]"
    by (rule concat_singletons)
  also have "\<dots> = ?S" by (rule map_nth)
  finally have "concat (map (best_section_at (critique_map_of cs) ?vsec) [0 ..< length ?S]) = ?S"
    unfolding eq .
  with mx show ?thesis
    by (simp add: merge_best_sections_def Let_def py_join_split)
qed

lemma merge_variants_same:
  assumes "variants \<noteq> []" and "list_all (\<lambda>v. content v = b) variants"
  shows "merge_variants variants cs ''best_sections'' = b"
proof (cases variants)
  case Nil
  with assms(1) show ?thesis by simp
next
  case (Cons v rest)
  show ?thesis
  proof (cases rest)
    case Nil
    with Cons assms(2) show ?thesis
      by (simp add: merge_variants_def try_merge_variants_def)
  next
    case (Cons w rest')
    have "map_of merge_strategies ''best_sections'' = Some merge_best_sections"
      by (simp add: merge_strategies_def)
    with merge_best_sections_same [OF assms, of cs] \<open>variants = v # rest\<close> Cons show ?thesis
      by (simp add: merge_variants_def try_merge_variants_def)
  qed
qed

lemma generate_variant_fallback:
  assumes "try_generate_variant rt now strategies request = Inl e"
  shows "generate_variant rt now strategies request
           = create_fallback_variant rt (\<lambda>i. now (i + 1)) request
         \<and> content (generate_variant rt now strategies request) = req_base_content request"
  using assms by (simp add: generate_variant_def create_fallback_variant_def)

lemma try_generate_variant_fails:
  assumes "\<And>f. strategies (req_variant_type request) = Some f \<Longrightarrow> isl (f request)"
  shows "isl (try_generate_variant rt now strategies request)"
proof (cases "strategies (req_variant_type request)")
  case None
  then show ?thesis by (simp add: try_generate_variant_def)
next
  case (Some f)
  with assms [OF Some] show ?thesis
    by (cases "f request") (simp_all add: try_generate_variant_def)
qed

lemma evaluate_variants_from_content:
  "map content (snd (evaluate_variants_from rt jes ts research i vs)) = map content vs"
  by (induction vs arbitrary: i) (simp_all add: Let_def case_prod_beta)

lemma evaluate_variants_from_length:
  "length (snd (evaluate_variants_from rt jes ts research i vs)) = length vs
   \<and> length (fst (evaluate_variants_from rt jes ts research i vs)) = length vs"
  by (induction vs arbitrary: i) (simp_all add: Let_def case_prod_beta)

lemma generated_variants_fallback:
  assumes "\<forall>vt f request. strategies vt = Some f \<longrightarrow> isl (f request)"
  shows "list_all (\<lambda>v. content v = base \<and> generation_strategy v = ''fallback'')
           (generate_variants_parallel rt ie strategies cfg tt base research ts)
         \<and> length (generate_variants_parallel rt ie strategies cfg tt base research ts) = 6"
proof -
  have one: "content (generate_variant rt now strategies request) = req_base_content request
             \<and> generation_strategy (generate_variant rt now strategies request) = ''fallback''"
    for now request
  proof -
    have "isl (try_generate_variant rt now strategies request)"
      by (rule try_generate_variant_fails) (use assms in blast)
    then obtain e where "try_generate_variant rt now strategies request = Inl e"
      by (cases "try_generate_variant rt now strategies request") auto
    then show ?thesis
      by (simp add: generate_variant_def create_fallback_variant_def)
  qed
  show ?thesis
    by (simp add: generate_variants_parallel_def generate_variants_task_parallel_def
          generate_variants_sequential_def all_variant_types_def one)
qed

lemma execute_iteration_content:
  "ir_best_content (fst (execute_evolution_iteration rt ie strategies cfg tt eid hist n base research ts))
     = merge_variants
         (snd (evaluate_variants rt (judge ie)
                 (generate_variants_parallel rt ie strategies cfg tt base research ts) ts research))
         (fst (evaluate_variants rt (judge ie)
                 (generate_variants_parallel rt ie strategies cfg tt base research ts) ts research))
         ''best_sections''"
  by (simp add: execute_evolution_iteration_def Let_def case_prod_beta agent_merge_variants_def)

lemma same_content_map: "list_all (\<lambda>v. content v = b) vs \<longleftrightarrow> map content vs = replicate (length vs) b"
  by (induction vs) auto

text \<open>
  C8: when every strategy function of the table fails on every request, the six
  variants of an iteration are fallback variants whose content is the base content;
  the \<open>best_sections\<close> merge of these variants, with any critiques, returns the base
  content, and so does the iteration as its best content; splitting the base content on
  the blank line and joining the sections again gives it back.
\<close>

theorem oracle_failure_round_trip:
  assumes "\<forall>vt f request. strategies vt = Some f \<longrightarrow> isl (f request)"
  shows "list_all (\<lambda>v. content v = base \<and> generation_strategy v = ''fallback'')
           (generate_variants_parallel rt ie strategies cfg tt base research ts)
         \<and> length (generate_variants_parallel rt ie strategies cfg tt base research ts) = 6
         \<and> merge_variants (generate_variants_parallel rt ie strategies cfg tt base research ts) cs
               ''best_sections'' = base
         \<and> ir_best_content
             (fst (execute_evolution_iteration rt ie strategies cfg tt eid hist n base research ts))
             = base
         \<and> py_join nn (py_split nn base) = base"
proof -
  let ?vs = "generate_variants_parallel rt ie strategies cfg tt base research ts"
  from generated_variants_fallback [OF assms, of base rt ie cfg tt research ts]
  have fb: "list_all (\<lambda>v. content v = base \<and> generation_strategy v = ''fallback'') ?vs"
    and len: "length ?vs = 6" by simp_all
  from fb have same: "list_all (\<lambda>v. content v = base) ?vs" by (simp add: list_all_iff)
  from len have ne: "?vs \<noteq> []" by auto
  have m1: "merge_variants ?vs cs ''best_sections'' = base"
    using ne same by (rule merge_variants_same)
  let ?judged = "snd (evaluate_variants rt (judge ie) ?vs ts research)"
  have "map content ?judged = map content ?vs"
    by (simp add: evaluate_variants_def evaluate_variants_from_content)
  with same have same': "list_all (\<lambda>v. content v = base) ?judged"
    by (simp add: same_content_map) (metis length_map)
  have "length ?judged = 6"
    using len by (simp add: evaluate_variants_def evaluate_variants_from_length)
  then have ne': "?judged \<noteq> []" by auto
  have m2: "ir_best_content
             (fst (execute_evolution_iteration rt ie strategies cfg tt eid hist n base research ts))
             = base"
    unfolding execute_iteration_content using ne' same' by (rule merge_variants_same)
  from fb len m1 m2 show ?thesis by (simp add: py_join_split)
qed

text \<open>Witness for C8: a strategy table whose functions all time out, and a base of two sections.\<close>

lemma ex_failing: "\<forall>vt f request. ex_failing_strategies vt = Some f \<longrightarrow> isl (f request)"
  by (auto simp: ex_failing_strategies_def)

lemma ex_merge:
  "map content (generate_variants_parallel ex_rt ex_env ex_failing_strategies default_config True
                   ex_base [] PlainDict)
     = [ex_base, ex_base, ex_base, ex_base, ex_base, ex_base]
   \<and> py_split nn ex_base = [''a'', ''b'']"
  by code_simp

theorem oracle_failure_round_trip_witness:
  "map content (generate_variants_parallel ex_rt ex_env ex_failing_strategies default_config True
                   ex_base [] PlainDict)
     = [ex_base, ex_base, ex_base, ex_base, ex_base, ex_base]
   \<and> py_split nn ex_base = [''a'', ''b'']
   \<and> merge_variants
        (generate_variants_parallel ex_rt ex_env ex_failing_strategies default_config True
           ex_base [] PlainDict) [] ''best_sections'' = ex_base
   \<and> ir_best_content
        (fst (execute_evolution_iteration ex_rt ex_env ex_failing_strategies default_config True
                [] [] 1 ex_base [] PlainDict)) = ex_base"
  using oracle_failure_round_trip [OF ex_failing, of ex_base ex_rt ex_env default_config True "[]" PlainDict "[]" "[]" "[]" 1]
    ex_merge
  by simp

section \<open>Audit records\<close>

lemma evaluate_variants_from_update:
  "snd (evaluate_variants_from rt jes ts research i vs)
     = map2 (\<lambda>v c. v\<lparr>quality_scores := dimension_scores c\<rparr>) vs
         (fst (evaluate_variants_from rt jes ts research i vs))"
  by (induction vs arbitrary: i) (simp_all add: Let_def case_prod_beta)

lemma evaluate_variants_from_critiques:
  "fst (evaluate_variants_from rt jes ts research i vs)
     = map (\<lambda>(k, v). evaluate_variant rt (jes k) v ts research) (enumerate i vs)"
  by (induction vs arbitrary: i) (simp_all add: Let_def case_prod_beta)

lemma iteration_step_audit:
  "rs_history (iteration_step rt envs strategies cfg tt eid research ts it st)
     = rs_history st
       @ [snd (execute_evolution_iteration rt (envs (nat (it + 1))) strategies cfg tt eid
                 (score_history (rs_progress st)) (it + 1) (rs_best_content st) research ts)]"
  by (simp add: iteration_step_def Let_def case_prod_beta)

lemma evolve_iterations_audit:
  assumes "evolve_iterations rt envs strategies cfg tt eid research ts its st = (failure, st')"
  shows "prefix (rs_history st) (rs_history st')"
  using assms
proof (induction its arbitrary: st)
  case Nil
  then show ?case by simp
next
  case (Cons it rest)
  let ?st1 = "iteration_step rt envs strategies cfg tt eid research ts it st"
  have p1: "prefix (rs_history st) (rs_history ?st1)"
    by (simp add: iteration_step_audit)
  show ?case
  proof (cases "check_convergence rt cfg (score_history (rs_progress ?st1)) (rs_best_score ?st1) (it + 1)")
    case (Inl e)
    with Cons.prems have "st' = ?st1" by (simp add: Let_def)
    with p1 show ?thesis by simp
  next
    case (Inr r)
    obtain should_continue reason where r: "r = (should_continue, reason)" by (cases r)
    show ?thesis
    proof (cases should_continue)
      case True
      with Inr r Cons.prems
      have "evolve_iterations rt envs strategies cfg tt eid research ts rest ?st1 = (failure, st')"
        by (simp add: Let_def)
      from Cons.IH [OF this] p1 show ?thesis by (rule_tac prefix_order.trans)
    next
      case False
      with Inr r Cons.prems have "st' = ?st1" by (simp add: Let_def)
      with p1 show ?thesis by simp
    qed
  qed
qed

text \<open>
  C9, as the code has it: \<^const>\<open>evaluate_variants\<close> returns one critique for each variant,
  the critique that \<^const>\<open>evaluate_variant\<close> builds, and leaves each variant with its
  \<open>quality_scores\<close> field set to the dimension scores of its critique and every other
  field as it was. The audit record of the iteration holds these variants and these
  critiques. A pass of the loop appends its audit record to the history, and the history
  before a run of the loop is a prefix of the history after it: a stored record is never
  changed.
\<close>

theorem variants_rescored_then_kept:
  "length (fst (evaluate_variants rt jes vs ts research)) = length vs
   \<and> fst (evaluate_variants rt jes vs ts research)
       = map (\<lambda>(k, v). evaluate_variant rt (jes k) v ts research) (enumerate 0 vs)
   \<and> snd (evaluate_variants rt jes vs ts research)
       = map2 (\<lambda>v c. v\<lparr>quality_scores := dimension_scores c\<rparr>) vs
           (fst (evaluate_variants rt jes vs ts research))
   \<and> generated_variants
        (snd (execute_evolution_iteration rt ie strategies cfg tt eid hist n base research ts))
       = snd (evaluate_variants rt (judge ie)
                (generate_variants_parallel rt ie strategies cfg tt base research ts) ts research)
   \<and> it_critiques
        (snd (execute_evolution_iteration rt ie strategies cfg tt eid hist n base research ts))
       = fst (evaluate_variants rt (judge ie)
                (generate_variants_parallel rt ie strategies cfg tt base research ts) ts research)
   \<and> rs_history (iteration_step rt envs strategies cfg tt eid research ts it st)
       = rs_history st
         @ [snd (execute_evolution_iteration rt (envs (nat (it + 1))) strategies cfg tt eid
                   (score_history (rs_progress st)) (it + 1) (rs_best_content st) research ts)]
   \<and> (evolve_iterations rt envs strategies cfg tt eid research ts its st = (failure, st')
        \<longrightarrow> prefix (rs_history st) (rs_history st'))"
proof (intro conjI impI)
  show "length (fst (evaluate_variants rt jes vs ts research)) = length vs"
    by (simp add: evaluate_variants_def evaluate_variants_from_length)
  show "fst (evaluate_variants rt jes vs ts research)
       = map (\<lambda>(k, v). evaluate_variant rt (jes k) v ts research) (enumerate 0 vs)"
    unfolding evaluate_variants_def by (rule evaluate_variants_from_critiques)
  show "snd (evaluate_variants rt jes vs ts research)
       = map2 (\<lambda>v c. v\<lparr>quality_scores := dimension_scores c\<rparr>) vs
           (fst (evaluate_variants rt jes vs ts research))"
    unfolding evaluate_variants_def by (rule evaluate_variants_from_update)
  show "generated_variants
        (snd (execute_evolution_iteration rt ie strategies cfg tt eid hist n base research ts))
       = snd (evaluate_variants rt (judge ie)
                (generate_variants_parallel rt ie strategies cfg tt base research ts) ts research)"
    by (simp add: execute_evolution_iteration_def Let_def case_prod_beta)
  show "it_critiques
        (snd (execute_evolution_iteration rt ie strategies cfg tt eid hist n base research ts))
       = fst (evaluate_variants rt (judge ie)
                (generate_variants_parallel rt ie strategies cfg tt base research ts) ts research)"
    by (simp add: execute_evolution_iteration_def Let_def case_prod_beta)
  show "rs_history (iteration_step rt envs strategies cfg tt eid research ts it st)
       = rs_history st
         @ [snd (execute_evolution_iteration rt (envs (nat (it + 1))) strategies cfg tt eid
                   (score_history (rs_progress st)) (it + 1) (rs_best_content st) research ts)]"
    by (rule iteration_step_audit)
next
  assume "evolve_iterations rt envs strategies cfg tt eid research ts its st = (failure, st')"
  then show "prefix (rs_history st) (rs_history st')"
    by (rule evolve_iterations_audit)
qed

text \<open>The example evaluations used below.\<close>

lemma ex_rescored:
  "quality_scores (generate_variant ex_rt ex_clock ex_echo_strategies ex_request) = []
   \<and> map quality_scores
       (snd (evaluate_variants ex_rt ex_judges
               [generate_variant ex_rt ex_clock ex_echo_strategies ex_request] PlainDict []))
     = [[(''accuracy'', 3), (''completeness'', 3), (''coherence'', 3), (''originality'', 3),
         (''evidence_quality'', 3), (''logical_flow'', 3), (''critical_thinking'', 3),
         (''synthesis_quality'', 3)]]"
  by code_simp

lemma ex_history_length:
  "map (\<lambda>it. (iteration_number it, length (generated_variants it), length (it_critiques it)))
     (rs_history (snd (evolve_iterations ex_rt ex_envs ex_failing_strategies default_config True []
        [] PlainDict [0, 1] (start_state ex_rt ex_clock ex_agent (ex_input 2)))))
   = [(1, 6, 6), (2, 6, 6)]"
  by code_simp

text \<open>Witness for C9: two passes of the loop on the example inputs.\<close>

theorem variants_rescored_then_kept_witness:
  "map (\<lambda>it. (iteration_number it, length (generated_variants it), length (it_critiques it)))
     (rs_history (snd (evolve_iterations ex_rt ex_envs ex_failing_strategies default_config True []
        [] PlainDict [0, 1] (start_state ex_rt ex_clock ex_agent (ex_input 2)))))
     = [(1, 6, 6), (2, 6, 6)]
   \<and> prefix (rs_history (start_state ex_rt ex_clock ex_agent (ex_input 2)))
       (rs_history (snd (evolve_iterations ex_rt ex_envs ex_failing_strategies default_config True []
          [] PlainDict [0, 1] (start_state ex_rt ex_clock ex_agent (ex_input 2)))))"
proof -
  have run: "evolve_iterations ex_rt ex_envs ex_failing_strategies default_config True []
          [] PlainDict [0, 1] (start_state ex_rt ex_clock ex_agent (ex_input 2))
        = (fst (evolve_iterations ex_rt ex_envs ex_failing_strategies default_config True []
          [] PlainDict [0, 1] (start_state ex_rt ex_clock ex_agent (ex_input 2))),
           snd (evolve_iterations ex_rt ex_envs ex_failing_strategies default_config True []
          [] PlainDict [0, 1] (start_state ex_rt ex_clock ex_agent (ex_input 2))))"
    by simp
  from variants_rescored_then_kept
         [THEN conjunct2, THEN conjunct2, THEN conjunct2, THEN conjunct2, THEN conjunct2,
          THEN conjunct2, THEN mp, OF run]
  have "prefix (rs_history (start_state ex_rt ex_clock ex_agent (ex_input 2)))
       (rs_history (snd (evolve_iterations ex_rt ex_envs ex_failing_strategies default_config True []
          [] PlainDict [0, 1] (start_state ex_rt ex_clock ex_agent (ex_input 2)))))" .
  with ex_history_length show ?thesis by blast
qed

text \<open>
  Counterexample to C9 as stated: a variant is created with empty \<open>quality_scores\<close>, and
  the evaluation afterwards assigns the eight dimension scores to that field.
\<close>

theorem variant_rescored_counterexample:
  "quality_scores (generate_variant ex_rt ex_clock ex_echo_strategies ex_request) = []
   \<and> map quality_scores
       (snd (evaluate_variants ex_rt ex_judges
               [generate_variant ex_rt ex_clock ex_echo_strategies ex_request] PlainDict []))
     = [[(''accuracy'', 3), (''completeness'', 3), (''coherence'', 3), (''originality'', 3),
         (''evidence_quality'', 3), (''logical_flow'', 3), (''critical_thinking'', 3),
         (''synthesis_quality'', 3)]]"
  by code_simp

section \<open>The entry point\<close>

text \<open>
  The only exception of the loop: \<^verbatim>\<open>max()\<close> of an empty slice in the plateau check,
  which needs a negative window.
\<close>

lemma detect_plateau_error:
  assumes "detect_plateau cfg hist = Inl e"
  shows "plateau_detection_window cfg < 0 \<and> e = ValueError ''max() arg is an empty sequence''"
proof (cases "0 < plateau_detection_window cfg")
  case True
  from detect_plateau_window [OF True, of hist] assms show ?thesis by simp
next
  case False
  show ?thesis
  proof (cases "slice_last hist (plateau_detection_window cfg) = []")
    case True
    with assms have g: "\<not> int (length hist) < plateau_detection_window cfg + 1"
      by (auto simp: detect_plateau_def Let_def split: if_splits)
    have neg: "plateau_detection_window cfg < 0"
    proof (rule ccontr)
      assume "\<not> plateau_detection_window cfg < 0"
      with False have z: "plateau_detection_window cfg = 0" by simp
      with g have "hist \<noteq> []" by auto
      with z True show False by (simp add: slice_last_def)
    qed
    from assms g True have "e = ValueError ''max() arg is an empty sequence''"
      by (simp add: detect_plateau_def Let_def py_max_def py_max_by_def)
    with neg show ?thesis by simp
  next
    case ne: False
    from assms py_max_Max [OF ne] py_min_Min [OF ne] show ?thesis
      by (simp add: detect_plateau_def Let_def split: if_splits)
  qed
qed

lemma check_convergence_error:
  "check_convergence rt cfg hist s it = Inl e \<Longrightarrow> detect_plateau cfg hist = Inl e"
  by (auto simp: check_convergence_def split: if_splits sum.splits)

lemma evolve_iterations_failure:
  assumes "evolve_iterations rt envs strategies cfg tt eid research ts its st = (Some e, st')"
  shows "detect_plateau cfg (score_history (rs_progress st')) = Inl e"
  using assms
proof (induction its arbitrary: st)
  case Nil
  then show ?case by simp
next
  case (Cons it rest)
  let ?st1 = "iteration_step rt envs strategies cfg tt eid research ts it st"
  show ?case
  proof (cases "check_convergence rt cfg (score_history (rs_progress ?st1)) (rs_best_score ?st1) (it + 1)")
    case (Inl e')
    with Cons.prems have "st' = ?st1" "e' = e" by (simp_all add: Let_def)
    with Inl show ?thesis by (auto dest: check_convergence_error)
  next
    case (Inr r)
    obtain should_continue reason where r: "r = (should_continue, reason)" by (cases r)
    show ?thesis
    proof (cases should_continue)
      case True
      with Inr r Cons.prems
      have "evolve_iterations rt envs strategies cfg tt eid research ts rest ?st1 = (Some e, st')"
        by (simp add: Let_def)
      then show ?thesis by (rule Cons.IH)
    next
      case False
      with Inr r Cons.prems show ?thesis by (simp add: Let_def)
    qed
  qed
qed

lemma evolve_content_valid:
  assumes "or_else (in_content inp) [] \<noteq> []" and "in_target_section inp = Some ts"
  shows "fst (evolve_content rt now envs ag inp) =
     (case fst (run_loop rt now envs ag inp ts) of
        Some e \<Rightarrow>
          Error \<lparr> error = py_error_str e,
                  err_evolution_id = Some (take 12 (md5_hexdigest rt (''evolution_'' @ now 0))),
                  partial_results = rs_history (snd (run_loop rt now envs ag inp ts)) \<rparr>
      | None \<Rightarrow>
          Success
            \<lparr> res_evolution_id = take 12 (md5_hexdigest rt (''evolution_'' @ now 0)),
              final_content = rs_best_content (snd (run_loop rt now envs ag inp ts)),
              final_score = rs_best_score (snd (run_loop rt now envs ag inp ts)),
              iterations_completed =
                completed_iterations (rs_progress (snd (run_loop rt now envs ag inp ts))),
              improvement_achieved =
                rs_best_score (snd (run_loop rt now envs ag inp ts))
                - (case score_history (rs_progress (snd (run_loop rt now envs ag inp ts))) of
                     [] \<Rightarrow> 0 | h # t \<Rightarrow> h),
              res_evolution_history = rs_history (snd (run_loop rt now envs ag inp ts)) \<rparr>)"
  using assms
  by (simp add: evolve_content_def run_loop_def start_state_def Let_def case_prod_beta
        split: option.splits)

text \<open>
  C10: \<^const>\<open>evolve_content\<close> returns a dict for every input, and what it returns is
  determined as follows. An input whose content is absent or empty, or whose target
  section is absent, gives the error dict with the message of the validation, the
  evolution id and the history that the agent held before the call. For any other input
  the loop runs; if its convergence check raises, the result is the error dict with
  \<^verbatim>\<open>str(e)\<close>, the evolution id and the history including the iterations made so far;
  otherwise it is the success dict built from the state that the loop reached. The loop
  can raise only \<^verbatim>\<open>ValueError\<close> from the plateau check, and only with a negative
  plateau window, so a valid input with a non-negative window always succeeds. The
  status is \<open>error\<close> exactly for an invalid input or a raising loop.
\<close>

theorem evolve_content_total:
  "(status (fst (evolve_content rt now envs ag inp)) = ''success''
      \<or> status (fst (evolve_content rt now envs ag inp)) = ''error'')
   \<and> (or_else (in_content inp) [] = [] \<or> in_target_section inp = None
        \<longrightarrow> fst (evolve_content rt now envs ag inp) =
              Error \<lparr> error = ''Missing required input: content or target_section'',
                      err_evolution_id = Some (take 12 (md5_hexdigest rt (''evolution_'' @ now 0))),
                      partial_results = evolution_history ag \<rparr>)
   \<and> (or_else (in_content inp) [] \<noteq> [] \<and> in_target_section inp = Some ts
        \<longrightarrow> fst (evolve_content rt now envs ag inp) =
              (case fst (run_loop rt now envs ag inp ts) of
                 Some e \<Rightarrow>
                   Error \<lparr> error = py_error_str e,
                           err_evolution_id =
                             Some (take 12 (md5_hexdigest rt (''evolution_'' @ now 0))),
                           partial_results = rs_history (snd (run_loop rt now envs ag inp ts)) \<rparr>
               | None \<Rightarrow>
                   Success
                     \<lparr> res_evolution_id = take 12 (md5_hexdigest rt (''evolution_'' @ now 0)),
                       final_content = rs_best_content (snd (run_loop rt now envs ag inp ts)),
                       final_score = rs_best_score (snd (run_loop rt now envs ag inp ts)),
                       iterations_completed =
                         completed_iterations (rs_progress (snd (run_loop rt now envs ag inp ts))),
                       improvement_achieved =
                         rs_best_score (snd (run_loop rt now envs ag inp ts))
                         - (case score_history (rs_progress (snd (run_loop rt now envs ag inp ts))) of
                              [] \<Rightarrow> 0 | h # t \<Rightarrow> h),
                       res_evolution_history = rs_history (snd (run_loop rt now envs ag inp ts)) \<rparr>)
            \<and> prefix (evolution_history ag) (rs_history (snd (run_loop rt now envs ag inp ts)))
            \<and> (fst (run_loop rt now envs ag inp ts) = Some err
                 \<longrightarrow> err = ValueError ''max() arg is an empty sequence''
                     \<and> detect_plateau
                           (config_update (agent_config ag)
                              (or_else (in_config inp) empty_custom_config))
                           (score_history (rs_progress (snd (run_loop rt now envs ag inp ts))))
                         = Inl err
                     \<and> plateau_detection_window
                           (config_update (agent_config ag)
                              (or_else (in_config inp) empty_custom_config)) < 0)
            \<and> (0 \<le> plateau_detection_window
                        (config_update (agent_config ag)
                           (or_else (in_config inp) empty_custom_config))
                 \<longrightarrow> status (fst (evolve_content rt now envs ag inp)) = ''success''))
   \<and> (status (fst (evolve_content rt now envs ag inp)) = ''error''
        \<longleftrightarrow> or_else (in_content inp) [] = [] \<or> in_target_section inp = None
            \<or> (\<exists>ts' e. in_target_section inp = Some ts'
                   \<and> fst (run_loop rt now envs ag inp ts') = Some e))"
proof -
  let ?cfg = "config_update (agent_config ag) (or_else (in_config inp) empty_custom_config)"
  have total: "status (fst (evolve_content rt now envs ag inp)) = ''success''
      \<or> status (fst (evolve_content rt now envs ag inp)) = ''error''"
    by (cases "fst (evolve_content rt now envs ag inp)") simp_all
  have invalid: "fst (evolve_content rt now envs ag inp) =
              Error \<lparr> error = ''Missing required input: content or target_section'',
                      err_evolution_id = Some (take 12 (md5_hexdigest rt (''evolution_'' @ now 0))),
                      partial_results = evolution_history ag \<rparr>"
    if "or_else (in_content inp) [] = [] \<or> in_target_section inp = None"
    using evolve_content_invalid [OF that, of rt now envs ag] by simp
  have fail: "e = ValueError ''max() arg is an empty sequence''
              \<and> detect_plateau ?cfg (score_history (rs_progress (snd (run_loop rt now envs ag inp t)))) = Inl e
              \<and> plateau_detection_window ?cfg < 0"
    if "fst (run_loop rt now envs ag inp t) = Some e" for t e
  proof -
    from that have "run_loop rt now envs ag inp t = (Some e, snd (run_loop rt now envs ag inp t))"
      by (metis prod.collapse)
    then have "detect_plateau ?cfg (score_history (rs_progress (snd (run_loop rt now envs ag inp t)))) = Inl e"
      unfolding run_loop_def by (rule evolve_iterations_failure)
    with detect_plateau_error [OF this] show ?thesis by simp
  qed
  have pre: "prefix (evolution_history ag) (rs_history (snd (run_loop rt now envs ag inp t)))" for t
  proof -
    have "run_loop rt now envs ag inp t
            = (fst (run_loop rt now envs ag inp t), snd (run_loop rt now envs ag inp t))"
      by simp
    then have "prefix (rs_history (start_state rt now ag inp))
                 (rs_history (snd (run_loop rt now envs ag inp t)))"
      unfolding run_loop_def by (rule evolve_iterations_audit)
    then show ?thesis by (simp add: start_state_def)
  qed
  have st_valid: "status (fst (evolve_content rt now envs ag inp)) = ''error''
                  \<longleftrightarrow> fst (run_loop rt now envs ag inp t) \<noteq> None"
    if "or_else (in_content inp) [] \<noteq> []" "in_target_section inp = Some t" for t
    using evolve_content_valid [OF that, of rt now envs ag]
    by (cases "fst (run_loop rt now envs ag inp t)") simp_all
  have succ: "status (fst (evolve_content rt now envs ag inp)) = ''success''"
    if "or_else (in_content inp) [] \<noteq> []" "in_target_section inp = Some t"
       "0 \<le> plateau_detection_window ?cfg" for t
  proof (cases "fst (run_loop rt now envs ag inp t)")
    case None
    with evolve_content_valid [OF that(1,2), of rt now envs ag] show ?thesis by simp
  next
    case (Some e)
    from fail [OF Some] that(3) show ?thesis by simp
  qed
  have iff: "status (fst (evolve_content rt now envs ag inp)) = ''error''
        \<longleftrightarrow> or_else (in_content inp) [] = [] \<or> in_target_section inp = None
            \<or> (\<exists>ts' e. in_target_section inp = Some ts'
                   \<and> fst (run_loop rt now envs ag inp ts') = Some e)"
  proof (cases "or_else (in_content inp) [] = [] \<or> in_target_section inp = None")
    case True
    from invalid [OF True]
    have "status (fst (evolve_content rt now envs ag inp)) = ''error''" by simp
    with True show ?thesis by blast
  next
    case False
    then obtain t where v: "or_else (in_content inp) [] \<noteq> []" "in_target_section inp = Some t"
      by auto
    from st_valid [OF v] v False show ?thesis by auto
  qed
  from total invalid evolve_content_valid [of inp ts rt now envs ag] pre [of ts] fail [of ts err]
    succ [of ts] iff
  show ?thesis by blast
qed

text \<open>
  The example input with the plateau window -1: the first convergence check raises, and
  the error dict holds the record of the one iteration made.
\<close>

lemma ex_window_error:
  "map_option (\<lambda>r. (error r, length (partial_results r)))
     (error_of (fst (evolve_content ex_rt ex_clock ex_envs ex_agent (ex_input_window (- 1)))))
   = Some (''max() arg is an empty sequence'', 1)
   \<and> fst (run_loop ex_rt ex_clock ex_envs ex_agent (ex_input_window (- 1)) PlainDict)
       = Some (ValueError ''max() arg is an empty sequence'')
   \<and> fst (run_loop ex_rt ex_clock ex_envs ex_agent (ex_input 2) PlainDict) = None"
  by code_simp

text \<open>
  Witness for C10: the example input without a target section, with an empty content,
  with a negative plateau window, and the plain example input, which succeeds.
\<close>

theorem evolve_content_total_witness:
  "status (fst (evolve_content ex_rt ex_clock ex_envs ex_agent
                 ((ex_input 2)\<lparr>in_target_section := None\<rparr>))) = ''error''
   \<and> status (fst (evolve_content ex_rt ex_clock ex_envs ex_agent
                 ((ex_input 2)\<lparr>in_content := Some []\<rparr>))) = ''error''
   \<and> status (fst (evolve_content ex_rt ex_clock ex_envs ex_agent (ex_input_window (- 1)))) = ''error''
   \<and> map_option (\<lambda>r. (error r, length (partial_results r)))
        (error_of (fst (evolve_content ex_rt ex_clock ex_envs ex_agent (ex_input_window (- 1)))))
      = Some (''max() arg is an empty sequence'', 1)
   \<and> status (fst (evolve_content ex_rt ex_clock ex_envs ex_agent (ex_input 2))) = ''success''"
proof -
  have a: "status (fst (evolve_content ex_rt ex_clock ex_envs ex_agent
                 ((ex_input 2)\<lparr>in_target_section := None\<rparr>))) = ''error''"
    using evolve_content_total [of ex_rt ex_clock ex_envs ex_agent
            "(ex_input 2)\<lparr>in_target_section := None\<rparr>"]
    by simp
  have b: "status (fst (evolve_content ex_rt ex_clock ex_envs ex_agent
                 ((ex_input 2)\<lparr>in_content := Some []\<rparr>))) = ''error''"
    using evolve_content_total [of ex_rt ex_clock ex_envs ex_agent
            "(ex_input 2)\<lparr>in_content := Some []\<rparr>"]
    by (simp add: or_else_def)
  have c: "status (fst (evolve_content ex_rt ex_clock ex_envs ex_agent (ex_input_window (- 1)))) = ''error''"
  proof -
    have "in_target_section (ex_input_window (- 1)) = Some PlainDict"
      by (simp add: ex_input_window_def)
    with ex_window_error
    have "\<exists>ts' e. in_target_section (ex_input_window (- 1)) = Some ts'
                   \<and> fst (run_loop ex_rt ex_clock ex_envs ex_agent (ex_input_window (- 1)) ts') = Some e"
      by blast
    with evolve_content_total [of ex_rt ex_clock ex_envs ex_agent "ex_input_window (- 1)"]
    show ?thesis by blast
  qed
  have d: "status (fst (evolve_content ex_rt ex_clock ex_envs ex_agent (ex_input 2))) = ''success''"
  proof -
    have v: "or_else (in_content (ex_input 2)) [] \<noteq> []" "in_target_section (ex_input 2) = Some PlainDict"
      by (simp_all add: ex_input_def or_else_def)
    have w: "0 \<le> plateau_detection_window
                  (config_update (agent_config ex_agent)
                     (or_else (in_config (ex_input 2)) empty_custom_config))"
      by (simp add: config_update_def ex_agent_def default_config_def ex_input_def or_else_def
            empty_custom_config_def)
    from evolve_content_total [of ex_rt ex_clock ex_envs ex_agent "ex_input 2" PlainDict] v w
    show ?thesis by blast
  qed
  from a b c d ex_window_error show ?thesis by simp
qed

end
